theory Spec2Isabelle
  imports Main "HOL-Library.AList" "HOL-Library.Sublist"
begin

section \<open>Values, dictionaries and the outside world\<close>

text \<open>
  A shallow embedding of \<^verbatim>\<open>src/main.py\<close>: the four request handlers \<^verbatim>\<open>signup\<close>,
  \<^verbatim>\<open>login\<close>, \<^verbatim>\<open>update_profile\<close> and \<^verbatim>\<open>delete_profile\<close>, the \<^verbatim>\<open>SignupModel\<close>
  schema they validate against, and the collection they read and write.

  A Python \<^verbatim>\<open>str\<close> is a \<open>string\<close>, one \<open>char\<close> standing for one code point, so
  that \<open>length\<close> is Python's \<^verbatim>\<open>len\<close>. The values a handler meets are \<^verbatim>\<open>None\<close>,
  booleans, integers, strings and, in the token payload only, a \<^verbatim>\<open>datetime\<close>
  (an integer count of microseconds). JSON numbers with a fraction, JSON arrays and
  nested JSON objects are outside the model.
\<close>

datatype pyval = PNone | PBool bool | PInt int | PStr string | PDatetime int

text \<open>
  A \<^verbatim>\<open>dict\<close> with string keys, in insertion order. \<^verbatim>\<open>d.get(k)\<close> is \<open>dict_get d k\<close>,
  \<^verbatim>\<open>d[k] = v\<close> is \<open>dict_set k v d\<close> (an existing key keeps its place, a new one goes
  last), \<^verbatim>\<open>d.pop(k, None)\<close> is \<open>dict_pop k d\<close>.
\<close>

type_synonym pydict = "(string \<times> pyval) list"

definition dict_get :: "pydict \<Rightarrow> string \<Rightarrow> pyval option" where
  "dict_get d k = map_of d k"

definition dict_set :: "string \<Rightarrow> pyval \<Rightarrow> pydict \<Rightarrow> pydict" where
  "dict_set k v d = AList.update k v d"

definition dict_pop :: "string \<Rightarrow> pydict \<Rightarrow> pydict" where
  "dict_pop k d = AList.delete k d"

text \<open>Python's truth value of an object, as \<^verbatim>\<open>not x\<close> and \<^verbatim>\<open>if x\<close> read it.\<close>

fun truthy :: "pyval \<Rightarrow> bool" where
  "truthy PNone = False"
| "truthy (PBool b) = b"
| "truthy (PInt i) = (i \<noteq> 0)"
| "truthy (PStr s) = (s \<noteq> [])"
| "truthy (PDatetime t) = True"

text \<open>\<^verbatim>\<open>not d.get(k)\<close>: a missing key gives \<^verbatim>\<open>None\<close>, which is false.\<close>

definition truthy_opt :: "pyval option \<Rightarrow> bool" where
  "truthy_opt v = (case v of None \<Rightarrow> False | Some x \<Rightarrow> truthy x)"

text \<open>\<^verbatim>\<open>needle in haystack\<close> on strings: a contiguous occurrence.\<close>

fun py_in :: "string \<Rightarrow> string \<Rightarrow> bool" where
  "py_in needle [] = (needle = [])"
| "py_in needle (c # cs) = (prefix needle (c # cs) \<or> py_in needle cs)"

text \<open>
  An exception that no handler catches leaves the endpoint as an unhandled fault (the
  framework answers with a server error). The string is the exception's class name.
\<close>

datatype fault = Fault string

text \<open>
  The libraries and the operating system the handlers call are parameters of the model:
  \<^item> \<open>environ\<close>: the process environment read by \<^verbatim>\<open>os.environ.get\<close>;
  \<^item> \<open>email_validate\<close>: what \<^verbatim>\<open>EmailStr\<close> makes of a string, the normalised address
    or a rejection;
  \<^item> \<open>int_of_str\<close>: the validator's reading of a string as an integer, for an
    \<^verbatim>\<open>int\<close> field that arrives as text;
  \<^item> \<open>hashpw pw salt\<close>: \<^verbatim>\<open>bcrypt.hashpw(pw.encode("utf-8"), salt).decode("utf-8")\<close>,
    which may raise;
  \<^item> \<open>checkpw pw h\<close>: \<^verbatim>\<open>bcrypt.checkpw(pw.encode("utf-8"), h.encode("utf-8"))\<close>, which
    may raise;
  \<^item> \<open>jwt_encode payload key algorithm\<close>: \<^verbatim>\<open>jwt.encode\<close>, which may raise;
  \<^item> \<open>fs_writable path\<close>: whether \<^verbatim>\<open>open(path, "wb")\<close> and the write succeed.
\<close>

record env =
  environ :: "(string \<times> string) list"
  email_validate :: "string \<Rightarrow> string option"
  int_of_str :: "string \<Rightarrow> int option"
  hashpw :: "string \<Rightarrow> string \<Rightarrow> fault + string"
  checkpw :: "string \<Rightarrow> string \<Rightarrow> fault + bool"
  jwt_encode :: "pydict \<Rightarrow> string \<Rightarrow> string \<Rightarrow> fault + string"
  fs_writable :: "string \<Rightarrow> bool"

subsection \<open>Config\<close>

definition JWT_SECRET :: "env \<Rightarrow> string" where
  "JWT_SECRET e =
     (case map_of (environ e) ''JWT_SECRET'' of
        None \<Rightarrow> ''change_this_secret_in_prod''
      | Some v \<Rightarrow> v)"

definition JWT_ALGO :: string where
  "JWT_ALGO = ''HS256''"

definition JWT_EXPIRE_DAYS :: int where
  "JWT_EXPIRE_DAYS = 10"

text \<open>\<^verbatim>\<open>timedelta(days=d)\<close>, in microseconds.\<close>

definition timedelta_days :: "int \<Rightarrow> int" where
  "timedelta_days d = d * 86400 * 1000000"

definition UPLOAD_DIR :: string where
  "UPLOAD_DIR = ''uploads''"

text \<open>\<^verbatim>\<open>os.path.join(a, b)\<close> on a POSIX system.\<close>

definition path_join :: "string \<Rightarrow> string \<Rightarrow> string" where
  "path_join a b =
     (if prefix ''/'' b then b
      else if a = [] \<or> suffix ''/'' a then a @ b
      else a @ ''/'' @ b)"

section \<open>The schema\<close>

text \<open>
  One entry of \<^verbatim>\<open>ValidationError.errors()\<close>: the field it is about (\<^verbatim>\<open>loc\<close>) and the
  kind of violation (\<^verbatim>\<open>type\<close>). The message, the echoed input and the URL are left out.
\<close>

datatype err_type =
    Missing | StringType | StringTooShort | StringTooLong
  | IntType | IntParsing | GreaterThanEqual | LessThanEqual | ValueError

datatype verror = VError (loc: string) (etype: err_type)

text \<open>\<^verbatim>\<open>str = Field(..., min_length=mn, max_length=mx)\<close>; \<open>None\<close> is no bound.\<close>

definition str_field :: "nat option \<Rightarrow> nat option \<Rightarrow> pyval \<Rightarrow> err_type + string" where
  "str_field mn mx v =
     (case v of
        PStr s \<Rightarrow>
          (if (case mn of None \<Rightarrow> False | Some n \<Rightarrow> length s < n) then Inl StringTooShort
           else if (case mx of None \<Rightarrow> False | Some n \<Rightarrow> n < length s) then Inl StringTooLong
           else Inr s)
      | _ \<Rightarrow> Inl StringType)"

text \<open>The bounds of \<^verbatim>\<open>int = Field(..., ge=lo, le=hi)\<close>.\<close>

definition int_range :: "int \<Rightarrow> int \<Rightarrow> int \<Rightarrow> err_type + int" where
  "int_range lo hi i =
     (if i < lo then Inl GreaterThanEqual
      else if hi < i then Inl LessThanEqual
      else Inr i)"

text \<open>
  An \<^verbatim>\<open>int\<close> field in the validator's default (lax) mode: an integer is taken as it
  is, a boolean as 0 or 1, a string is parsed.
\<close>

definition int_field :: "env \<Rightarrow> int \<Rightarrow> int \<Rightarrow> pyval \<Rightarrow> err_type + int" where
  "int_field e lo hi v =
     (case v of
        PInt i \<Rightarrow> int_range lo hi i
      | PBool b \<Rightarrow> int_range lo hi (if b then 1 else 0)
      | PStr s \<Rightarrow>
          (case int_of_str e s of None \<Rightarrow> Inl IntParsing | Some i \<Rightarrow> int_range lo hi i)
      | _ \<Rightarrow> Inl IntType)"

definition email_field :: "env \<Rightarrow> pyval \<Rightarrow> err_type + string" where
  "email_field e v =
     (case v of
        PStr s \<Rightarrow> (case email_validate e s of None \<Rightarrow> Inl ValueError | Some n \<Rightarrow> Inr n)
      | _ \<Rightarrow> Inl StringType)"

text \<open>A required field: missing from the mapping, rejected by its validator, or accepted.\<close>

definition field :: "string \<Rightarrow> (pyval \<Rightarrow> err_type + 'a) \<Rightarrow> pydict \<Rightarrow> verror list + 'a" where
  "field name validate data =
     (case dict_get data name of
        None \<Rightarrow> Inl [VError name Missing]
      | Some v \<Rightarrow> (case validate v of Inl t \<Rightarrow> Inl [VError name t] | Inr x \<Rightarrow> Inr x))"

definition errors_of :: "verror list + 'a \<Rightarrow> verror list" where
  "errors_of r = (case r of Inl es \<Rightarrow> es | Inr x \<Rightarrow> [])"

record signup_model =
  firstName :: string
  lastName :: string
  age :: int
  email :: string
  password :: string
  mobileNo :: string
  profilePic :: string

text \<open>
  \<^verbatim>\<open>SignupModel(**data)\<close>: every field is validated, the errors of all fields are
  collected in the order of the class body, and keys that are no field are ignored.
\<close>

definition SignupModel :: "env \<Rightarrow> pydict \<Rightarrow> verror list + signup_model" where
  "SignupModel e data =
     (let r1 = field ''firstName'' (str_field (Some 2) (Some 30)) data;
          r2 = field ''lastName'' (str_field (Some 1) (Some 30)) data;
          r3 = field ''age'' (int_field e 1 120) data;
          r4 = field ''email'' (email_field e) data;
          r5 = field ''password'' (str_field (Some 6) None) data;
          r6 = field ''mobileNo'' (str_field (Some 10) (Some 15)) data;
          r7 = field ''profilePic'' (str_field None None) data;
          errs = errors_of r1 @ errors_of r2 @ errors_of r3 @ errors_of r4
                 @ errors_of r5 @ errors_of r6 @ errors_of r7
      in (case r1 of Inl _ \<Rightarrow> Inl errs | Inr v1 \<Rightarrow>
         (case r2 of Inl _ \<Rightarrow> Inl errs | Inr v2 \<Rightarrow>
         (case r3 of Inl _ \<Rightarrow> Inl errs | Inr v3 \<Rightarrow>
         (case r4 of Inl _ \<Rightarrow> Inl errs | Inr v4 \<Rightarrow>
         (case r5 of Inl _ \<Rightarrow> Inl errs | Inr v5 \<Rightarrow>
         (case r6 of Inl _ \<Rightarrow> Inl errs | Inr v6 \<Rightarrow>
         (case r7 of Inl _ \<Rightarrow> Inl errs | Inr v7 \<Rightarrow>
           Inr \<lparr>firstName = v1, lastName = v2, age = v3, email = v4,
                password = v5, mobileNo = v6, profilePic = v7\<rparr>))))))))"

text \<open>\<^verbatim>\<open>valid.model_dump()\<close>.\<close>

definition model_dump :: "signup_model \<Rightarrow> pydict" where
  "model_dump m =
     [(''firstName'', PStr (firstName m)), (''lastName'', PStr (lastName m)),
      (''age'', PInt (age m)), (''email'', PStr (email m)),
      (''password'', PStr (password m)), (''mobileNo'', PStr (mobileNo m)),
      (''profilePic'', PStr (profilePic m))]"

section \<open>The collection and the upload directory\<close>

text \<open>
  A stored document: the identifier the driver gave it (an \<^verbatim>\<open>ObjectId\<close>, held as the
  string \<^verbatim>\<open>str\<close> makes of it) and its other fields. The collection is the list of
  documents in insertion order; \<^verbatim>\<open>find_one\<close>, \<^verbatim>\<open>update_one\<close> and \<^verbatim>\<open>delete_one\<close> act
  on the first document the filter matches. The database is taken to answer every
  call: connection faults are not modelled.
\<close>

record doc =
  oid :: string
  attrs :: pydict

record state =
  docs :: "doc list"
  files :: "(string \<times> string) list"

text \<open>
  The filter \<^verbatim>\<open>{"email": em}\<close>. The handlers only pass a value that is true in
  Python's sense (never \<^verbatim>\<open>None\<close>), for which the filter asks for a stored field
  equal to it.
\<close>

definition matches :: "pyval \<Rightarrow> doc \<Rightarrow> bool" where
  "matches em d = (dict_get (attrs d) ''email'' = Some em)"

definition find_one :: "doc list \<Rightarrow> pyval \<Rightarrow> doc option" where
  "find_one ds em = find (matches em) ds"

text \<open>
  \<^verbatim>\<open>insert_one(doc)\<close> with the fresh identifier \<open>nid\<close> the driver generated; the
  collection refuses an identifier it already holds.
\<close>

definition insert_one :: "doc list \<Rightarrow> pydict \<Rightarrow> string \<Rightarrow> fault + doc list" where
  "insert_one ds d nid =
     (if nid \<in> set (map oid ds) then Inl (Fault ''DuplicateKeyError'')
      else Inr (ds @ [\<lparr>oid = nid, attrs = d\<rparr>]))"

text \<open>The update operator \<^verbatim>\<open>{"$set": upd}\<close> on one document.\<close>

definition set_fields :: "pydict \<Rightarrow> pydict \<Rightarrow> pydict" where
  "set_fields upd fs = foldl (\<lambda>acc (k, v). dict_set k v acc) fs upd"

text \<open>\<^verbatim>\<open>update_one\<close>: the new collection and \<^verbatim>\<open>matched_count\<close>.\<close>

fun update_one :: "doc list \<Rightarrow> pyval \<Rightarrow> pydict \<Rightarrow> doc list \<times> nat" where
  "update_one [] em upd = ([], 0)"
| "update_one (d # ds) em upd =
     (if matches em d then (d\<lparr>attrs := set_fields upd (attrs d)\<rparr> # ds, 1)
      else (case update_one ds em upd of (ds', n) \<Rightarrow> (d # ds', n)))"

text \<open>\<^verbatim>\<open>delete_one\<close>: the new collection and \<^verbatim>\<open>deleted_count\<close>.\<close>

fun delete_one :: "doc list \<Rightarrow> pyval \<Rightarrow> doc list \<times> nat" where
  "delete_one [] em = ([], 0)"
| "delete_one (d # ds) em =
     (if matches em d then (ds, 1)
      else (case delete_one ds em of (ds', n) \<Rightarrow> (d # ds', n)))"

text \<open>Writing a file replaces what the path held.\<close>

definition write_file :: "string \<Rightarrow> string \<Rightarrow> (string \<times> string) list \<Rightarrow> (string \<times> string) list" where
  "write_file path bytes fs = AList.update path bytes fs"

section \<open>Requests and responses\<close>

text \<open>
  A submitted form field is a text value or an uploaded file (its file name and its
  content); only the latter has the attributes \<^verbatim>\<open>filename\<close> and \<^verbatim>\<open>file\<close>.
\<close>

datatype fval = Text string | UploadFile string string

text \<open>What \<^verbatim>\<open>await request.json()\<close> returns: a JSON object, or a JSON value that is none.\<close>

datatype json = JObject pydict | JOther

text \<open>
  A request: the \<^verbatim>\<open>content-type\<close> header (empty when there is none), what
  \<^verbatim>\<open>request.json()\<close> would give and what \<^verbatim>\<open>request.form()\<close> would give (the submitted
  fields in order, a key possibly more than once), either of which may raise.
\<close>

record request =
  content_type :: string
  json_body :: "fault + json"
  form_body :: "fault + (string \<times> fval) list"

text \<open>
  \<^verbatim>\<open>form.items()\<close> and \<^verbatim>\<open>form.get\<close> read the form as a dictionary: a repeated key keeps
  the place of its first occurrence and the value of its last.
\<close>

definition form_dict :: "(string \<times> fval) list \<Rightarrow> (string \<times> fval) list" where
  "form_dict items = foldl (\<lambda>acc (k, v). AList.update k v acc) [] items"

datatype response =
    SignupOk string
  | SignupError string "verror list option"
  | StatusFailure string "verror list option"
  | StatusSuccess string
  | LoginSuccess string pydict
  | Unhandled fault

text \<open>
  The dictionary \<^verbatim>\<open>find_one\<close> hands to the handler: the identifier under \<^verbatim>\<open>_id\<close>,
  then the stored fields.
\<close>

definition doc_dict :: "doc \<Rightarrow> pydict" where
  "doc_dict d = (''_id'', PStr (oid d)) # attrs d"

text \<open>\<^verbatim>\<open>d.get(k, default)\<close>.\<close>

definition dict_get_default :: "pydict \<Rightarrow> string \<Rightarrow> pyval \<Rightarrow> pyval" where
  "dict_get_default d k dflt = (case dict_get d k of None \<Rightarrow> dflt | Some v \<Rightarrow> v)"

text \<open>The truth value of \<^verbatim>\<open>form.get(k)\<close>: an upload object is always true.\<close>

definition form_truthy :: "fval option \<Rightarrow> bool" where
  "form_truthy v =
     (case v of None \<Rightarrow> False | Some (Text t) \<Rightarrow> t \<noteq> [] | Some (UploadFile n b) \<Rightarrow> True)"

section \<open>Signup\<close>

text \<open>
  The loop over \<^verbatim>\<open>form.items()\<close> of \<^verbatim>\<open>signup\<close>: an upload is written under the upload
  directory by its submitted name and its path becomes the field's value; a text field
  is kept as it is. A write that fails ends the request; the files written before it stay.
\<close>

fun signup_read_form ::
  "env \<Rightarrow> (string \<times> fval) list \<Rightarrow> pydict \<Rightarrow> (string \<times> string) list
     \<Rightarrow> (string \<times> string) list \<times> (fault + pydict)" where
  "signup_read_form e [] data fs = (fs, Inr data)"
| "signup_read_form e ((key, UploadFile filename bytes) # rest) data fs =
     (let file_path = path_join UPLOAD_DIR filename in
      if fs_writable e file_path
      then signup_read_form e rest (dict_set key (PStr file_path) data)
             (write_file file_path bytes fs)
      else (fs, Inl (Fault ''OSError'')))"
| "signup_read_form e ((key, Text t) # rest) data fs =
     signup_read_form e rest (dict_set key (PStr t) data) fs"

text \<open>Steps 2 to 4 of \<^verbatim>\<open>signup\<close>: validate, hash the password, insert.\<close>

definition signup_validated :: "env \<Rightarrow> state \<Rightarrow> pydict \<Rightarrow> string \<Rightarrow> string \<Rightarrow> state \<times> response" where
  "signup_validated e s data salt nid =
     (case SignupModel e data of
        Inl errs \<Rightarrow> (s, SignupError ''Validation failed'' (Some errs))
      | Inr valid \<Rightarrow>
          (case hashpw e (password valid) salt of
             Inl f \<Rightarrow> (s, Unhandled f)
           | Inr hashed_pw \<Rightarrow>
               (case insert_one (docs s)
                       (dict_set ''password'' (PStr hashed_pw) (model_dump valid)) nid of
                  Inl f \<Rightarrow> (s, Unhandled f)
                | Inr ds \<Rightarrow> (s\<lparr>docs := ds\<rparr>, SignupOk nid))))"

text \<open>
  Step 1 of \<^verbatim>\<open>signup\<close>, the normalised mapping: \<open>None\<close> when the content type is not
  supported, else the state after the uploads were written and the mapping or the fault
  that ended the reading.
\<close>

definition signup_data :: "env \<Rightarrow> state \<Rightarrow> request \<Rightarrow> (state \<times> (fault + pydict)) option" where
  "signup_data e s req =
     (if py_in ''application/json'' (content_type req) then
        (case json_body req of
           Inl f \<Rightarrow> Some (s, Inl f)
         | Inr JOther \<Rightarrow> Some (s, Inl (Fault ''TypeError''))
         | Inr (JObject data) \<Rightarrow> Some (s, Inr data))
      else if py_in ''multipart/form-data'' (content_type req)
              \<or> py_in ''application/x-www-form-urlencoded'' (content_type req) then
        (case form_body req of
           Inl f \<Rightarrow> Some (s, Inl f)
         | Inr items \<Rightarrow>
             (case signup_read_form e (form_dict items) [] (files s) of
                (fs, r) \<Rightarrow> Some (s\<lparr>files := fs\<rparr>, r)))
      else None)"

text \<open>
  \<^verbatim>\<open>signup\<close>, with the salt \<^verbatim>\<open>bcrypt.gensalt()\<close> draws and the identifier the driver
  generates for the new document as inputs.
\<close>

definition signup :: "env \<Rightarrow> state \<Rightarrow> request \<Rightarrow> string \<Rightarrow> string \<Rightarrow> state \<times> response" where
  "signup e s req salt nid =
     (case signup_data e s req of
        None \<Rightarrow> (s, SignupError ''Unsupported content type'' None)
      | Some (s1, Inl f) \<Rightarrow> (s1, Unhandled f)
      | Some (s1, Inr data) \<Rightarrow> signup_validated e s1 data salt nid)"

section \<open>Login\<close>

text \<open>\<^verbatim>\<open>login\<close> from the lookup on, for a text email and the submitted password field.\<close>

definition login_user :: "env \<Rightarrow> state \<Rightarrow> string \<Rightarrow> fval \<Rightarrow> int \<Rightarrow> response" where
  "login_user e s em pw now =
     (case find_one (docs s) (PStr em) of
        None \<Rightarrow> StatusFailure ''invalid username'' None
      | Some user \<Rightarrow>
          (let stored_hash = dict_get (doc_dict user) ''password'' in
           if \<not> truthy_opt stored_hash then StatusFailure ''invalid password'' None
           else
             (case (pw, stored_hash) of
                (Text pw_text, Some (PStr h)) \<Rightarrow>
                  (case checkpw e pw_text h of
                     Inl f \<Rightarrow> Unhandled f
                   | Inr ok \<Rightarrow>
                       if \<not> ok then StatusFailure ''invalid password'' None
                       else
                         (let user_id = oid user;
                              user1 = dict_set ''_id'' (PStr user_id)
                                        (dict_pop ''password'' (doc_dict user));
                              payload =
                                [(''user_id'', PStr user_id),
                                 (''email'', dict_get_default user1 ''email'' PNone),
                                 (''exp'', PDatetime (now + timedelta_days JWT_EXPIRE_DAYS))]
                          in case jwt_encode e payload (JWT_SECRET e) JWT_ALGO of
                               Inl f \<Rightarrow> Unhandled f
                             | Inr token \<Rightarrow> LoginSuccess token user1))
              | _ \<Rightarrow> Unhandled (Fault ''AttributeError''))))"

text \<open>
  \<^verbatim>\<open>login\<close>, with the clock reading \<^verbatim>\<open>datetime.utcnow()\<close> as an input. An upload
  object sent as the email cannot be made a filter (the driver raises); one sent as
  the password, or a stored password that is no string, has no \<^verbatim>\<open>encode\<close>.
\<close>

definition login :: "env \<Rightarrow> state \<Rightarrow> request \<Rightarrow> int \<Rightarrow> response" where
  "login e s req now =
     (if \<not> py_in ''multipart/form-data'' (content_type req)
      then StatusFailure ''invalid content-type'' None
      else
        (case form_body req of
           Inl f \<Rightarrow> Unhandled f
         | Inr items \<Rightarrow>
             (let em = map_of (form_dict items) ''email'';
                  pw = map_of (form_dict items) ''password''
              in if \<not> form_truthy em \<or> \<not> form_truthy pw
                 then StatusFailure ''No email or password provided'' None
                 else
                   (case (em, pw) of
                      (Some (Text em_text), Some pw_val) \<Rightarrow> login_user e s em_text pw_val now
                    | _ \<Rightarrow> Unhandled (Fault ''InvalidDocument'')))))"

section \<open>Update profile\<close>

text \<open>
  The loop over \<^verbatim>\<open>form.items()\<close> of \<^verbatim>\<open>update_profile\<close>: as in \<^verbatim>\<open>signup\<close>, but an
  upload with an empty file name is skipped.
\<close>

fun update_read_form ::
  "env \<Rightarrow> (string \<times> fval) list \<Rightarrow> pydict \<Rightarrow> (string \<times> string) list
     \<Rightarrow> (string \<times> string) list \<times> (fault + pydict)" where
  "update_read_form e [] data fs = (fs, Inr data)"
| "update_read_form e ((key, UploadFile filename bytes) # rest) data fs =
     (if filename \<noteq> [] then
        (let file_path = path_join UPLOAD_DIR filename in
         if fs_writable e file_path
         then update_read_form e rest (dict_set key (PStr file_path) data)
                (write_file file_path bytes fs)
         else (fs, Inl (Fault ''OSError'')))
      else update_read_form e rest data fs)"
| "update_read_form e ((key, Text t) # rest) data fs =
     update_read_form e rest (dict_set key (PStr t) data) fs"

text \<open>
  What that loop leaves in the mapping for one submitted field, and with it the email the
  handler reads from the mapping and looks up: that of the form's \<^verbatim>\<open>email\<close> field.
\<close>

definition update_field_value :: "fval \<Rightarrow> pyval option" where
  "update_field_value v =
     (case v of
        Text t \<Rightarrow> Some (PStr t)
      | UploadFile filename bytes \<Rightarrow>
          if filename \<noteq> [] then Some (PStr (path_join UPLOAD_DIR filename)) else None)"

definition submitted_email :: "(string \<times> fval) list \<Rightarrow> pyval option" where
  "submitted_email items =
     (case map_of (form_dict items) ''email'' of
        None \<Rightarrow> None
      | Some v \<Rightarrow> update_field_value v)"

text \<open>\<^verbatim>\<open>update_one\<close> and the answer that follows it.\<close>

definition update_store :: "state \<Rightarrow> pyval \<Rightarrow> pydict \<Rightarrow> state \<times> response" where
  "update_store s em update_doc =
     (case update_one (docs s) em update_doc of
        (ds, matched_count) \<Rightarrow>
          (s\<lparr>docs := ds\<rparr>,
           if matched_count = 0 then StatusFailure ''user not found for update'' None
           else StatusSuccess ''Profile updated successfully''))"

text \<open>The merge policy: the submitted mapping after the two "keep the old one" steps.\<close>

definition keep_profilePic :: "pydict \<Rightarrow> pydict \<Rightarrow> pydict" where
  "keep_profilePic existing_user data =
     (case (dict_get data ''profilePic'', dict_get existing_user ''profilePic'') of
        (None, Some p) \<Rightarrow> dict_set ''profilePic'' p data
      | _ \<Rightarrow> data)"

definition skip_hash :: "pydict \<Rightarrow> bool" where
  "skip_hash data = (\<not> truthy_opt (dict_get data ''password''))"

definition keep_password :: "pydict \<Rightarrow> pydict \<Rightarrow> pydict" where
  "keep_password existing_user data =
     (if skip_hash data
      then dict_set ''password'' (dict_get_default existing_user ''password'' (PStr [])) data
      else data)"

text \<open>\<^verbatim>\<open>update_profile\<close> from the normalised mapping on.\<close>

definition update_merge :: "env \<Rightarrow> state \<Rightarrow> pydict \<Rightarrow> string \<Rightarrow> state \<times> response" where
  "update_merge e s data salt =
     (case dict_get data ''email'' of
        None \<Rightarrow> (s, StatusFailure ''email is required to update profile'' None)
      | Some em \<Rightarrow>
          if \<not> truthy em
          then (s, StatusFailure ''email is required to update profile'' None)
          else
            (case find_one (docs s) em of
               None \<Rightarrow> (s, StatusFailure ''user not found'' None)
             | Some existing \<Rightarrow>
                 (let existing_user = doc_dict existing;
                      data1 = keep_profilePic existing_user data;
                      data2 = keep_password existing_user data1
                  in case SignupModel e data2 of
                       Inl errs \<Rightarrow> (s, StatusFailure ''Validation failed'' (Some errs))
                     | Inr valid \<Rightarrow>
                         if skip_hash data1
                         then update_store s em
                                (dict_set ''password''
                                   (dict_get_default existing_user ''password'' (PStr []))
                                   (model_dump valid))
                         else
                           (case hashpw e (password valid) salt of
                              Inl f \<Rightarrow> (s, Unhandled f)
                            | Inr hashed_pw \<Rightarrow>
                                update_store s em
                                  (dict_set ''password'' (PStr hashed_pw) (model_dump valid))))))"

text \<open>\<^verbatim>\<open>update_profile\<close>, with the salt as an input.\<close>

definition update_profile :: "env \<Rightarrow> state \<Rightarrow> request \<Rightarrow> string \<Rightarrow> state \<times> response" where
  "update_profile e s req salt =
     (if \<not> py_in ''multipart/form-data'' (content_type req)
      then (s, StatusFailure ''invalid content-type'' None)
      else
        (case form_body req of
           Inl f \<Rightarrow> (s, Unhandled f)
         | Inr items \<Rightarrow>
             (case update_read_form e (form_dict items) [] (files s) of
                (fs, Inl f) \<Rightarrow> (s\<lparr>files := fs\<rparr>, Unhandled f)
              | (fs, Inr data) \<Rightarrow> update_merge e (s\<lparr>files := fs\<rparr>) data salt)))"

section \<open>Delete profile\<close>

definition delete_profile :: "state \<Rightarrow> string \<Rightarrow> state \<times> response" where
  "delete_profile s em =
     (if em = [] then (s, StatusFailure ''email is required'' None)
      else
        (case find_one (docs s) (PStr em) of
           None \<Rightarrow> (s, StatusFailure ''user not found'' None)
         | Some existing_user \<Rightarrow>
             (case delete_one (docs s) (PStr em) of
                (ds, deleted_count) \<Rightarrow>
                  (s\<lparr>docs := ds\<rparr>,
                   if deleted_count = 0 then StatusFailure ''user not found'' None
                   else StatusSuccess ''Profile deleted successfully''))))"

section \<open>A reference environment\<close>

text \<open>
  Stand-ins for the libraries, small enough to run the handlers on concrete requests.
  They agree with the libraries on what the examples below rely on: a string without
  \<open>@\<close> is no email address; a string of decimal digits reads as that number;
  a hash carries the scheme prefix \<^verbatim>\<open>$2b$\<close>, verifies against the password it was made
  from, and \<^verbatim>\<open>bcrypt.checkpw\<close> raises \<^verbatim>\<open>ValueError\<close> ("Invalid salt") on a string
  that is no hash; a path that ends in a slash names a directory and cannot be opened
  for writing. The environment variable \<^verbatim>\<open>JWT_SECRET\<close> is not set.
\<close>

definition ref_email_validate :: "string \<Rightarrow> string option" where
  "ref_email_validate s = (if CHR ''@'' \<in> set s then Some s else None)"

definition digit_table :: "(char \<times> int) list" where
  "digit_table =
     [(CHR ''0'', 0), (CHR ''1'', 1), (CHR ''2'', 2), (CHR ''3'', 3), (CHR ''4'', 4),
      (CHR ''5'', 5), (CHR ''6'', 6), (CHR ''7'', 7), (CHR ''8'', 8), (CHR ''9'', 9)]"

fun parse_digits :: "string \<Rightarrow> int \<Rightarrow> int option" where
  "parse_digits [] acc = Some acc"
| "parse_digits (c # cs) acc =
     (case map_of digit_table c of
        None \<Rightarrow> None
      | Some d \<Rightarrow> parse_digits cs (10 * acc + d))"

definition ref_int_of_str :: "string \<Rightarrow> int option" where
  "ref_int_of_str s = (if s = [] then None else parse_digits s 0)"

definition ref_hashpw :: "string \<Rightarrow> string \<Rightarrow> fault + string" where
  "ref_hashpw pw salt = Inr (''$2b$'' @ salt @ ''$'' @ pw)"

definition ref_checkpw :: "string \<Rightarrow> string \<Rightarrow> fault + bool" where
  "ref_checkpw pw h =
     (if prefix ''$2b$'' h then Inr (suffix (''$'' @ pw) h)
      else Inl (Fault ''ValueError''))"

definition ref_jwt_encode :: "pydict \<Rightarrow> string \<Rightarrow> string \<Rightarrow> fault + string" where
  "ref_jwt_encode payload key algorithm = Inr (algorithm @ ''.'' @ key)"

definition ref_env :: env where
  "ref_env =
     \<lparr>environ = [], email_validate = ref_email_validate, int_of_str = ref_int_of_str,
      hashpw = ref_hashpw, checkpw = ref_checkpw, jwt_encode = ref_jwt_encode,
      fs_writable = (\<lambda>path. \<not> suffix ''/'' path)\<rparr>"

text \<open>Sample data: an empty server, a valid submission, and the record it becomes.\<close>

definition empty_state :: state where
  "empty_state = \<lparr>docs = [], files = []\<rparr>"

definition alice_json :: pydict where
  "alice_json =
     [(''firstName'', PStr ''Alice''), (''lastName'', PStr ''Liddell''), (''age'', PInt 30),
      (''email'', PStr ''alice@example.com''), (''password'', PStr ''secret1''),
      (''mobileNo'', PStr ''0123456789''), (''profilePic'', PStr ''uploads/a.png'')]"

definition json_request :: "pydict \<Rightarrow> request" where
  "json_request data =
     \<lparr>content_type = ''application/json'', json_body = Inr (JObject data),
      form_body = Inr []\<rparr>"

definition multipart_request :: "(string \<times> fval) list \<Rightarrow> request" where
  "multipart_request items =
     \<lparr>content_type = ''multipart/form-data; boundary=x'',
      json_body = Inl (Fault ''JSONDecodeError''), form_body = Inr items\<rparr>"

definition alice_doc :: doc where
  "alice_doc =
     \<lparr>oid = ''id1'',
      attrs =
        [(''firstName'', PStr ''Alice''), (''lastName'', PStr ''Liddell''), (''age'', PInt 30),
         (''email'', PStr ''alice@example.com''), (''password'', PStr ''$2b$salt$secret1''),
         (''mobileNo'', PStr ''0123456789''), (''profilePic'', PStr ''uploads/a.png'')]\<rparr>"

section \<open>The schema as the specification words it\<close>

text \<open>
  The constraints of the user record as the specification lists them: firstName 2 to 30
  characters, lastName 1 to 30, age an integer from 1 to 120, email of valid syntax,
  password at least 6 characters, mobileNo 10 to 15 characters, profilePic a string.
  A value counts as an integer when the validator reads it as one.
\<close>

definition spec_len_between :: "nat \<Rightarrow> nat \<Rightarrow> pyval option \<Rightarrow> bool" where
  "spec_len_between lo hi v =
     (case v of Some (PStr t) \<Rightarrow> lo \<le> length t \<and> length t \<le> hi | _ \<Rightarrow> False)"

definition spec_as_int :: "env \<Rightarrow> pyval \<Rightarrow> int option" where
  "spec_as_int e v =
     (case v of
        PInt i \<Rightarrow> Some i
      | PBool b \<Rightarrow> Some (if b then 1 else 0)
      | PStr t \<Rightarrow> int_of_str e t
      | _ \<Rightarrow> None)"

definition spec_field_ok :: "env \<Rightarrow> pydict \<Rightarrow> string \<Rightarrow> bool" where
  "spec_field_ok e data name =
     (let v = dict_get data name in
      if name = ''firstName'' then spec_len_between 2 30 v
      else if name = ''lastName'' then spec_len_between 1 30 v
      else if name = ''age'' then
        (case v of
           None \<Rightarrow> False
         | Some x \<Rightarrow> (case spec_as_int e x of None \<Rightarrow> False | Some i \<Rightarrow> 1 \<le> i \<and> i \<le> 120))
      else if name = ''email'' then
        (case v of Some (PStr t) \<Rightarrow> email_validate e t \<noteq> None | _ \<Rightarrow> False)
      else if name = ''password'' then
        (case v of Some (PStr t) \<Rightarrow> 6 \<le> length t | _ \<Rightarrow> False)
      else if name = ''mobileNo'' then spec_len_between 10 15 v
      else if name = ''profilePic'' then (case v of Some (PStr t) \<Rightarrow> True | _ \<Rightarrow> False)
      else True)"

definition schema_fields :: "string list" where
  "schema_fields =
     [''firstName'', ''lastName'', ''age'', ''email'', ''password'', ''mobileNo'', ''profilePic'']"

definition violated_fields :: "env \<Rightarrow> pydict \<Rightarrow> string list" where
  "violated_fields e data = filter (\<lambda>name. \<not> spec_field_ok e data name) schema_fields"

text \<open>A submission that breaks two constraints: age 0 and a password of five characters.\<close>

definition bad_json :: pydict where
  "bad_json =
     [(''firstName'', PStr ''Alice''), (''lastName'', PStr ''Liddell''), (''age'', PInt 0),
      (''email'', PStr ''alice@example.com''), (''password'', PStr ''12345''),
      (''mobileNo'', PStr ''0123456789''), (''profilePic'', PStr ''uploads/a.png'')]"

text \<open>All errors the schema reports for a mapping, field by field in the class's order.\<close>

definition field_errors :: "env \<Rightarrow> pydict \<Rightarrow> verror list" where
  "field_errors e data =
      errors_of (field ''firstName'' (str_field (Some 2) (Some 30)) data)
    @ errors_of (field ''lastName'' (str_field (Some 1) (Some 30)) data)
    @ errors_of (field ''age'' (int_field e 1 120) data)
    @ errors_of (field ''email'' (email_field e) data)
    @ errors_of (field ''password'' (str_field (Some 6) None) data)
    @ errors_of (field ''mobileNo'' (str_field (Some 10) (Some 15)) data)
    @ errors_of (field ''profilePic'' (str_field None None) data)"

text \<open>A request that declares plain text, and whose body cannot be read either way.\<close>

definition text_plain_request :: request where
  "text_plain_request =
     \<lparr>content_type = ''text/plain'', json_body = Inl (Fault ''JSONDecodeError''),
      form_body = Inl (Fault ''HTTPException'')\<rparr>"

text \<open>A server with one account, a login form, and a record whose password was stored in clear by an earlier writer.\<close>

definition alice_state :: state where
  "alice_state = \<lparr>docs = [alice_doc], files = []\<rparr>"

definition login_form :: "string \<Rightarrow> string \<Rightarrow> request" where
  "login_form em pw = multipart_request [(''email'', Text em), (''password'', Text pw)]"

definition legacy_doc :: doc where
  "legacy_doc =
     \<lparr>oid = ''id0'',
      attrs = [(''email'', PStr ''bob@example.com''), (''password'', PStr ''plaintext'')]\<rparr>"

definition legacy_state :: state where
  "legacy_state = \<lparr>docs = [legacy_doc], files = []\<rparr>"

text \<open>The server after the same person signed up twice.\<close>

definition alice_twin :: doc where
  "alice_twin = alice_doc\<lparr>oid := ''id2''\<rparr>"

definition twin_state :: state where
  "twin_state = \<lparr>docs = [alice_doc, alice_twin], files = []\<rparr>"

text \<open>A server that holds Bob's record and, after it, Alice's.\<close>

definition pair_state :: state where
  "pair_state = \<lparr>docs = [legacy_doc, alice_doc], files = []\<rparr>"

text \<open>Update forms for Alice: the text fields, to which a password or a picture is added.\<close>

definition alice_update :: "(string \<times> fval) list" where
  "alice_update =
     [(''firstName'', Text ''Alicia''), (''lastName'', Text ''Liddell''), (''age'', Text ''31''),
      (''email'', Text ''alice@example.com''), (''mobileNo'', Text ''0123456789'')]"

definition alicia_attrs :: "string \<Rightarrow> string \<Rightarrow> pydict" where
  "alicia_attrs pwd pic =
     [(''firstName'', PStr ''Alicia''), (''lastName'', PStr ''Liddell''), (''age'', PInt 31),
      (''email'', PStr ''alice@example.com''), (''password'', PStr pwd),
      (''mobileNo'', PStr ''0123456789''), (''profilePic'', PStr pic)]"

section \<open>Hash strings\<close>

text \<open>
  In the specification's words a stored password is a hash string when the hashing
  function returned it for some plaintext and salt; a store is hashed when every
  password field in it holds such a string.
\<close>

definition is_hash :: "env \<Rightarrow> pyval \<Rightarrow> bool" where
  "is_hash e v = (\<exists>pw salt h. v = PStr h \<and> hashpw e pw salt = Inr h)"

definition hashed_store :: "env \<Rightarrow> state \<Rightarrow> bool" where
  "hashed_store e s =
     (\<forall>d \<in> set (docs s). \<forall>v. dict_get (attrs d) ''password'' = Some v \<longrightarrow> is_hash e v)"

text \<open>
  The calls that can change the state, with the inputs each draws, and the state a
  server reaches by serving a list of them in turn.
\<close>

datatype call =
    Signup request string string
  | UpdateProfile request string
  | DeleteProfile string

fun serve :: "env \<Rightarrow> state \<Rightarrow> call \<Rightarrow> state" where
  "serve e s (Signup req salt nid) = fst (signup e s req salt nid)"
| "serve e s (UpdateProfile req salt) = fst (update_profile e s req salt)"
| "serve e s (DeleteProfile em) = fst (delete_profile s em)"

definition run :: "env \<Rightarrow> state \<Rightarrow> call list \<Rightarrow> state" where
  "run e s calls = foldl (serve e) s calls"

section \<open>Basic facts\<close>

lemma py_in_sublist: "py_in needle hay \<longleftrightarrow> sublist needle hay"
  by (induction hay) (auto simp: sublist_Cons_right)

lemma errors_of_Inr [simp]: "errors_of (Inr x) = []"
  by (simp add: errors_of_def)

lemma errors_of_Inl [simp]: "errors_of (Inl es) = es"
  by (simp add: errors_of_def)

lemma field_Inl_nonempty: "field name validate data = Inl es \<Longrightarrow> es \<noteq> []"
  by (auto simp: field_def split: option.splits sum.splits)

lemma SignupModel_Inl:
  "SignupModel e data = Inl errs \<Longrightarrow> errs = field_errors e data \<and> errs \<noteq> []"
  unfolding SignupModel_def field_errors_def Let_def
  by (auto split: sum.splits dest: field_Inl_nonempty)

lemma SignupModel_Inr:
  "SignupModel e data = Inr m \<Longrightarrow> field_errors e data = []"
  unfolding SignupModel_def field_errors_def Let_def
  by (auto split: sum.splits)

subsection \<open>The schema reports exactly the fields the specification's constraints reject\<close>

lemma loc_firstName:
  "map loc (errors_of (field ''firstName'' (str_field (Some 2) (Some 30)) data)) =
     (if spec_field_ok e data ''firstName'' then [] else [''firstName''])"
  by (auto simp: field_def str_field_def spec_field_ok_def spec_len_between_def
           split: option.splits pyval.splits)

lemma loc_lastName:
  "map loc (errors_of (field ''lastName'' (str_field (Some 1) (Some 30)) data)) =
     (if spec_field_ok e data ''lastName'' then [] else [''lastName''])"
  by (auto simp: field_def str_field_def spec_field_ok_def spec_len_between_def Suc_le_eq
           split: option.splits pyval.splits)

lemma loc_age:
  "map loc (errors_of (field ''age'' (int_field e 1 120) data)) =
     (if spec_field_ok e data ''age'' then [] else [''age''])"
  by (auto simp: field_def int_field_def int_range_def spec_field_ok_def spec_as_int_def
           split: option.splits pyval.splits)

lemma loc_email:
  "map loc (errors_of (field ''email'' (email_field e) data)) =
     (if spec_field_ok e data ''email'' then [] else [''email''])"
  by (auto simp: field_def email_field_def spec_field_ok_def
           split: option.splits pyval.splits)

lemma loc_password:
  "map loc (errors_of (field ''password'' (str_field (Some 6) None) data)) =
     (if spec_field_ok e data ''password'' then [] else [''password''])"
  by (auto simp: field_def str_field_def spec_field_ok_def
           split: option.splits pyval.splits)

lemma loc_mobileNo:
  "map loc (errors_of (field ''mobileNo'' (str_field (Some 10) (Some 15)) data)) =
     (if spec_field_ok e data ''mobileNo'' then [] else [''mobileNo''])"
  by (auto simp: field_def str_field_def spec_field_ok_def spec_len_between_def
           split: option.splits pyval.splits)

lemma loc_profilePic:
  "map loc (errors_of (field ''profilePic'' (str_field None None) data)) =
     (if spec_field_ok e data ''profilePic'' then [] else [''profilePic''])"
  by (auto simp: field_def str_field_def spec_field_ok_def
           split: option.splits pyval.splits)

lemma map_loc_field_errors: "map loc (field_errors e data) = violated_fields e data"
  unfolding field_errors_def violated_fields_def schema_fields_def map_append
    loc_firstName [of data e] loc_lastName [of data e] loc_age loc_email loc_password [of data e]
    loc_mobileNo [of data e] loc_profilePic [of data e]
  by simp

lemma signup_data_docs: "signup_data e s req = Some (s1, r) \<Longrightarrow> docs s1 = docs s"
  by (auto simp: signup_data_def split: if_splits sum.splits json.splits prod.splits)

section \<open>Signup rejects an invalid submission\<close>

text \<open>
  Claim C1. Whenever the normalised mapping of a signup submission violates at least one
  field constraint of the schema, \<^verbatim>\<open>signup\<close> answers "Validation failed" with a list of
  errors that names every violated field exactly once (all of them, in the order of the
  schema, not only the first), and the collection is left as it was: nothing is inserted.
\<close>

theorem signup_validation_failure:
  assumes "signup_data e s req = Some (s1, Inr data)"
      and "violated_fields e data \<noteq> []"
  shows "\<exists>errs. signup e s req salt nid = (s1, SignupError ''Validation failed'' (Some errs))
           \<and> map loc errs = violated_fields e data
           \<and> distinct (map loc errs)
           \<and> docs s1 = docs s"
proof -
  from assms(2) have "field_errors e data \<noteq> []"
    using map_loc_field_errors [of e data] by auto
  then obtain errs where E: "SignupModel e data = Inl errs"
    using SignupModel_Inr [of e data] by (cases "SignupModel e data") auto
  then have "errs = field_errors e data"
    by (simp add: SignupModel_Inl)
  moreover have "distinct (violated_fields e data)"
    by (simp add: violated_fields_def schema_fields_def)
  ultimately show ?thesis
    using E assms(1) signup_data_docs [OF assms(1)]
    by (simp add: signup_def signup_validated_def map_loc_field_errors)
qed

text \<open>
  A JSON submission with age 0 and a five-character password: both fields are reported
  and the empty collection stays empty.
\<close>

theorem signup_validation_failure_witness:
  "signup_data ref_env empty_state (json_request bad_json) = Some (empty_state, Inr bad_json)
   \<and> violated_fields ref_env bad_json = [''age'', ''password'']
   \<and> (\<exists>errs. signup ref_env empty_state (json_request bad_json) ''salt'' ''id1''
               = (empty_state, SignupError ''Validation failed'' (Some errs))
             \<and> map loc errs = [''age'', ''password''])
   \<and> docs empty_state = []"
proof -
  have d: "signup_data ref_env empty_state (json_request bad_json) = Some (empty_state, Inr bad_json)"
    by (simp add: signup_data_def json_request_def)
  have v: "violated_fields ref_env bad_json = [''age'', ''password'']"
    by code_simp
  have e: "docs empty_state = []"
    by (simp add: empty_state_def)
  from v have "violated_fields ref_env bad_json \<noteq> []" by simp
  from signup_validation_failure [OF d this, of "''salt''" "''id1''"] v d e
  show ?thesis by auto
qed

section \<open>Unsupported content types\<close>

text \<open>
  Claim C9. A signup request whose content type contains none of
  \<^verbatim>\<open>application/json\<close>, \<^verbatim>\<open>multipart/form-data\<close> and
  \<^verbatim>\<open>application/x-www-form-urlencoded\<close> is answered with the error "Unsupported content
  type"; neither validation nor insertion happens and the state is unchanged. Login and
  profile update answer any request whose content type does not contain
  \<^verbatim>\<open>multipart/form-data\<close> with the failure "invalid content-type". The request's body
  is arbitrary here, also one whose reading would raise, so the answer is given before
  the body is read.
\<close>

theorem unsupported_content_type:
  "(\<not> py_in ''application/json'' (content_type req)
      \<and> \<not> py_in ''multipart/form-data'' (content_type req)
      \<and> \<not> py_in ''application/x-www-form-urlencoded'' (content_type req)
    \<longrightarrow> signup e s req salt nid = (s, SignupError ''Unsupported content type'' None))
   \<and> (\<not> py_in ''multipart/form-data'' (content_type req)
    \<longrightarrow> login e s req now = StatusFailure ''invalid content-type'' None
      \<and> update_profile e s req salt = (s, StatusFailure ''invalid content-type'' None))"
  by (simp add: signup_def signup_data_def login_def update_profile_def)

text \<open>A request of type \<^verbatim>\<open>text/plain\<close> with an unreadable body is refused by all three.\<close>

theorem unsupported_content_type_witness:
  "\<not> py_in ''application/json'' (content_type text_plain_request)
   \<and> \<not> py_in ''multipart/form-data'' (content_type text_plain_request)
   \<and> \<not> py_in ''application/x-www-form-urlencoded'' (content_type text_plain_request)
   \<and> signup ref_env empty_state text_plain_request ''salt'' ''id1''
        = (empty_state, SignupError ''Unsupported content type'' None)
   \<and> login ref_env empty_state text_plain_request 0
        = StatusFailure ''invalid content-type'' None
   \<and> update_profile ref_env empty_state text_plain_request ''salt''
        = (empty_state, StatusFailure ''invalid content-type'' None)"
proof -
  have c: "\<not> py_in ''application/json'' (content_type text_plain_request)"
       "\<not> py_in ''multipart/form-data'' (content_type text_plain_request)"
       "\<not> py_in ''application/x-www-form-urlencoded'' (content_type text_plain_request)"
    by (simp_all add: text_plain_request_def)
  from unsupported_content_type
         [where req = text_plain_request and e = ref_env and s = empty_state
            and salt = "''salt''" and nid = "''id1''" and now = 0] c
  show ?thesis by simp
qed

section \<open>Dictionaries and lookups\<close>

lemma dict_get_set: "dict_get (dict_set k v d) k' = (if k' = k then Some v else dict_get d k')"
  by (simp add: dict_get_def dict_set_def update_conv')

lemma dict_get_pop: "dict_get (dict_pop k d) k' = (if k' = k then None else dict_get d k')"
  by (simp add: dict_get_def dict_pop_def delete_conv')

lemma dict_get_doc_dict: "k \<noteq> ''_id'' \<Longrightarrow> dict_get (doc_dict d) k = dict_get (attrs d) k"
  by (simp add: dict_get_def doc_dict_def)

lemma find_one_Some: "find_one ds em = Some u \<Longrightarrow> u \<in> set ds \<and> matches em u"
  by (auto simp: find_one_def find_Some_iff)

lemma find_one_None: "find_one ds em = None \<longleftrightarrow> (\<forall>d \<in> set ds. \<not> matches em d)"
  by (auto simp: find_one_def find_None_iff)

lemma signup_data_any_docs:
  "signup_data e s req = Some (s1, r) \<Longrightarrow>
   signup_data e (s\<lparr>docs := ds\<rparr>) req = Some (s1\<lparr>docs := ds\<rparr>, r)"
  by (auto simp: signup_data_def split: if_splits sum.splits json.splits prod.splits)

lemma SignupModel_email:
  "SignupModel e data = Inr m \<Longrightarrow>
   dict_get (dict_set ''password'' v (model_dump m)) ''email'' = Some (PStr (email m))"
  by (simp add: dict_get_set) (simp add: dict_get_def model_dump_def)

section \<open>Signup never looks for an existing account\<close>

text \<open>
  Claim C10. \<^verbatim>\<open>signup\<close> makes no duplicate-email check. For a submission that
  normalises to a valid mapping, the insert happens whatever the collection \<open>ds\<close> already
  holds (given that hashing returns and the driver's identifier is new): the answer is
  "Signup successful", the new record is appended, and the number of records under
  that email grows by one. A second signup with the same email therefore succeeds too
  and leaves two records under one lookup key.
\<close>

theorem signup_inserts_unconditionally:
  assumes norm: "signup_data e s req = Some (s1, Inr data)"
      and valid: "SignupModel e data = Inr m"
      and hash: "hashpw e (password m) salt = Inr h"
      and fresh: "nid \<notin> set (map oid ds)"
  shows "\<exists>d. signup e (s\<lparr>docs := ds\<rparr>) req salt nid = (s1\<lparr>docs := ds @ [d]\<rparr>, SignupOk nid)
           \<and> oid d = nid
           \<and> matches (PStr (email m)) d
           \<and> length (filter (matches (PStr (email m))) (ds @ [d]))
               = Suc (length (filter (matches (PStr (email m))) ds))"
proof -
  let ?d = "\<lparr>oid = nid, attrs = dict_set ''password'' (PStr h) (model_dump m)\<rparr>"
  have m: "matches (PStr (email m)) ?d"
    using SignupModel_email [OF valid] by (simp add: matches_def)
  have "signup e (s\<lparr>docs := ds\<rparr>) req salt nid = (s1\<lparr>docs := ds @ [?d]\<rparr>, SignupOk nid)"
    using signup_data_any_docs [OF norm, of ds] valid hash fresh
    by (simp add: signup_def signup_validated_def insert_one_def)
  with m show ?thesis by (intro exI [of _ ?d]) simp
qed

text \<open>
  Two signups with the same submission: the first creates Alice's record, the second,
  made while that record is there, adds another one under the same email.
\<close>

theorem signup_inserts_unconditionally_witness:
  "signup ref_env empty_state (json_request alice_json) ''salt'' ''id1''
     = (alice_state, SignupOk ''id1'')
   \<and> signup_data ref_env empty_state (json_request alice_json)
       = Some (empty_state, Inr alice_json)
   \<and> ''id2'' \<notin> set (map oid [alice_doc])
   \<and> length (filter (matches (PStr ''alice@example.com'')) [alice_doc]) = 1
   \<and> (\<exists>d. signup ref_env alice_state (json_request alice_json) ''salt'' ''id2''
              = (\<lparr>docs = [alice_doc, d], files = []\<rparr>, SignupOk ''id2'')
          \<and> oid d = ''id2''
          \<and> matches (PStr ''alice@example.com'') d
          \<and> length (filter (matches (PStr ''alice@example.com'')) [alice_doc, d]) = 2)"
proof -
  let ?m = "\<lparr>firstName = ''Alice'', lastName = ''Liddell'', age = 30,
             email = ''alice@example.com'', password = ''secret1'',
             mobileNo = ''0123456789'', profilePic = ''uploads/a.png''\<rparr>"
  have first: "signup ref_env empty_state (json_request alice_json) ''salt'' ''id1''
     = (alice_state, SignupOk ''id1'')"
    by code_simp
  have norm: "signup_data ref_env empty_state (json_request alice_json)
       = Some (empty_state, Inr alice_json)"
    by (simp add: signup_data_def json_request_def)
  have valid: "SignupModel ref_env alice_json = Inr ?m"
    by code_simp
  have hash: "hashpw ref_env (password ?m) ''salt'' = Inr ''$2b$salt$secret1''"
    by (simp add: ref_env_def ref_hashpw_def)
  have fresh: "''id2'' \<notin> set (map oid [alice_doc])"
    by (simp add: alice_doc_def)
  have count: "length (filter (matches (PStr ''alice@example.com'')) [alice_doc]) = 1"
    by code_simp
  have st: "empty_state\<lparr>docs := [alice_doc]\<rparr> = alice_state"
    by (simp add: empty_state_def alice_state_def)
  from signup_inserts_unconditionally [OF norm valid hash fresh]
  obtain d where d: "signup ref_env (empty_state\<lparr>docs := [alice_doc]\<rparr>) (json_request alice_json)
                       ''salt'' ''id2''
                     = (empty_state\<lparr>docs := [alice_doc] @ [d]\<rparr>, SignupOk ''id2'')"
      "oid d = ''id2''" "matches (PStr (email ?m)) d"
      "length (filter (matches (PStr (email ?m))) ([alice_doc] @ [d]))
         = Suc (length (filter (matches (PStr (email ?m))) [alice_doc]))"
    by blast
  have e: "email ?m = ''alice@example.com''" by simp
  have two: "length (filter (matches (PStr ''alice@example.com'')) [alice_doc, d]) = 2"
    using d(4) count unfolding e by simp
  have st2: "empty_state\<lparr>docs := [alice_doc] @ [d]\<rparr> = \<lparr>docs = [alice_doc, d], files = []\<rparr>"
    by (simp add: empty_state_def)
  have "\<exists>d. signup ref_env alice_state (json_request alice_json) ''salt'' ''id2''
              = (\<lparr>docs = [alice_doc, d], files = []\<rparr>, SignupOk ''id2'')
          \<and> oid d = ''id2''
          \<and> matches (PStr ''alice@example.com'') d
          \<and> length (filter (matches (PStr ''alice@example.com'')) [alice_doc, d]) = 2"
    using d(1,2,3) two unfolding st st2 e by blast
  with first norm fresh count show ?thesis by blast
qed

section \<open>Login\<close>

lemma login_success_inv:
  assumes "login e s req now = LoginSuccess token user"
  shows "\<exists>items em pw u h.
           py_in ''multipart/form-data'' (content_type req)
         \<and> form_body req = Inr items
         \<and> map_of (form_dict items) ''email'' = Some (Text em) \<and> em \<noteq> []
         \<and> map_of (form_dict items) ''password'' = Some (Text pw) \<and> pw \<noteq> []
         \<and> find_one (docs s) (PStr em) = Some u
         \<and> dict_get (attrs u) ''password'' = Some (PStr h) \<and> h \<noteq> []
         \<and> checkpw e pw h = Inr True
         \<and> jwt_encode e [(''user_id'', PStr (oid u)), (''email'', PStr em),
                (''exp'', PDatetime (now + timedelta_days JWT_EXPIRE_DAYS))]
              (JWT_SECRET e) JWT_ALGO = Inr token
         \<and> user = dict_set ''_id'' (PStr (oid u)) (dict_pop ''password'' (doc_dict u))"
proof -
  from assms obtain items where ct: "py_in ''multipart/form-data'' (content_type req)"
    and fb: "form_body req = Inr items"
    by (auto simp: login_def split: if_splits sum.splits)
  let ?em = "map_of (form_dict items) ''email''"
  let ?pw = "map_of (form_dict items) ''password''"
  from assms ct fb obtain em pwv where em: "?em = Some (Text em)" "em \<noteq> []"
    and pwv: "?pw = Some pwv" "form_truthy ?pw"
    and lu: "login_user e s em pwv now = LoginSuccess token user"
    by (auto simp: login_def Let_def form_truthy_def split: if_splits option.splits fval.splits)
  from lu obtain u where u: "find_one (docs s) (PStr em) = Some u"
    by (auto simp: login_user_def split: option.splits)
  let ?user = "dict_set ''_id'' (PStr (oid u)) (dict_pop ''password'' (doc_dict u))"
  from lu u obtain pw h where pw: "pwv = Text pw"
    and h: "dict_get (attrs u) ''password'' = Some (PStr h)"
    and hne: "h \<noteq> []"
    and ck: "checkpw e pw h = Inr True"
    and rest: "(case jwt_encode e [(''user_id'', PStr (oid u)),
                 (''email'', dict_get_default ?user ''email'' PNone),
                 (''exp'', PDatetime (now + timedelta_days JWT_EXPIRE_DAYS))]
                 (JWT_SECRET e) JWT_ALGO of
                 Inl f \<Rightarrow> Unhandled f | Inr t \<Rightarrow> LoginSuccess t ?user)
               = LoginSuccess token user"
    by (auto simp: login_user_def Let_def truthy_opt_def dict_get_doc_dict
             split: option.splits fval.splits pyval.splits sum.splits if_splits)
  have "dict_get (attrs u) ''email'' = Some (PStr em)"
    using find_one_Some [OF u] by (simp add: matches_def)
  then have "dict_get_default ?user ''email'' PNone = PStr em"
    by (simp add: dict_get_default_def dict_get_set dict_get_pop dict_get_doc_dict)
  with rest have "jwt_encode e [(''user_id'', PStr (oid u)), (''email'', PStr em),
                (''exp'', PDatetime (now + timedelta_days JWT_EXPIRE_DAYS))]
              (JWT_SECRET e) JWT_ALGO = Inr token \<and> user = ?user"
    by (auto split: sum.splits)
  with ct fb em pwv pw u h hne ck show ?thesis
    by (auto simp: form_truthy_def)
qed

lemma login_text_fields:
  assumes "py_in ''multipart/form-data'' (content_type req)"
      and "form_body req = Inr items"
      and "map_of (form_dict items) ''email'' = Some (Text em)" "em \<noteq> []"
      and "map_of (form_dict items) ''password'' = Some (Text pw)" "pw \<noteq> []"
  shows "login e s req now = login_user e s em (Text pw) now"
  using assms by (simp add: login_def form_truthy_def)

lemma login_form_fields:
  "py_in ''multipart/form-data'' (content_type (login_form em pw))"
  "form_body (login_form em pw) = Inr [(''email'', Text em), (''password'', Text pw)]"
  "map_of (form_dict [(''email'', Text em), (''password'', Text pw)]) ''email'' = Some (Text em)"
  "map_of (form_dict [(''email'', Text em), (''password'', Text pw)]) ''password'' = Some (Text pw)"
  by (simp_all add: login_form_def multipart_request_def form_dict_def)

text \<open>
  Claim C7. The token of every successful login is what \<^verbatim>\<open>jwt.encode\<close> returns for the
  payload with exactly the three entries \<^verbatim>\<open>user_id\<close> (the identifier of the record
  found), \<^verbatim>\<open>email\<close> (the record's email, which is the submitted one) and \<^verbatim>\<open>exp\<close> (the
  clock reading at issuance plus 10 days), signed with the secret (the environment's
  \<^verbatim>\<open>JWT_SECRET\<close>, or the built-in default when it is unset) under the algorithm HS256.
\<close>

theorem token_contents:
  assumes "login e s req now = LoginSuccess token user"
  shows "\<exists>u em. find_one (docs s) (PStr em) = Some u
           \<and> jwt_encode e
                [(''user_id'', PStr (oid u)), (''email'', PStr em),
                 (''exp'', PDatetime (now + 10 * 86400 * 1000000))]
                (case map_of (environ e) ''JWT_SECRET'' of
                   None \<Rightarrow> ''change_this_secret_in_prod'' | Some v \<Rightarrow> v)
                ''HS256'' = Inr token"
  using login_success_inv [OF assms]
  by (auto simp: JWT_SECRET_def JWT_ALGO_def JWT_EXPIRE_DAYS_def timedelta_days_def)

text \<open>A successful login at clock reading 1000, with no secret in the environment.\<close>

theorem token_contents_witness:
  "login ref_env alice_state (login_form ''alice@example.com'' ''secret1'') 1000
     = LoginSuccess ''HS256.change_this_secret_in_prod''
         [(''_id'', PStr ''id1''), (''firstName'', PStr ''Alice''), (''lastName'', PStr ''Liddell''),
          (''age'', PInt 30), (''email'', PStr ''alice@example.com''),
          (''mobileNo'', PStr ''0123456789''), (''profilePic'', PStr ''uploads/a.png'')]
   \<and> (\<exists>u em. find_one (docs alice_state) (PStr em) = Some u
         \<and> jwt_encode ref_env
              [(''user_id'', PStr (oid u)), (''email'', PStr em),
               (''exp'', PDatetime (1000 + 10 * 86400 * 1000000))]
              (case map_of (environ ref_env) ''JWT_SECRET'' of
                 None \<Rightarrow> ''change_this_secret_in_prod'' | Some v \<Rightarrow> v)
              ''HS256'' = Inr ''HS256.change_this_secret_in_prod'')"
proof -
  have l: "login ref_env alice_state (login_form ''alice@example.com'' ''secret1'') 1000
     = LoginSuccess ''HS256.change_this_secret_in_prod''
         [(''_id'', PStr ''id1''), (''firstName'', PStr ''Alice''), (''lastName'', PStr ''Liddell''),
          (''age'', PInt 30), (''email'', PStr ''alice@example.com''),
          (''mobileNo'', PStr ''0123456789''), (''profilePic'', PStr ''uploads/a.png'')]"
    by code_simp
  from token_contents [OF l] l show ?thesis by simp
qed

text \<open>
  Claim C3, as the code has it. A login request with multipart form encoding that carries
  a non-empty text email and a non-empty text password is answered as follows: when no
  stored record matches the email, with the failure "invalid username"; when the first
  matching record stores a string against which the submitted password does not verify,
  with the failure "invalid password"; when it verifies (and the token is signed), with
  the token and the user record, from which the password field is removed and whose other
  fields are the stored ones. A request without an email or without a password never
  reaches the lookup: see the counterexample below.
\<close>

theorem login_outcomes:
  assumes "py_in ''multipart/form-data'' (content_type req)"
      and "form_body req = Inr items"
      and "map_of (form_dict items) ''email'' = Some (Text em)" "em \<noteq> []"
      and "map_of (form_dict items) ''password'' = Some (Text pw)" "pw \<noteq> []"
  shows "(find_one (docs s) (PStr em) = None
            \<longrightarrow> login e s req now = StatusFailure ''invalid username'' None)
       \<and> (\<forall>u h. find_one (docs s) (PStr em) = Some u
                 \<and> dict_get (attrs u) ''password'' = Some (PStr h)
                 \<and> checkpw e pw h = Inr False
            \<longrightarrow> login e s req now = StatusFailure ''invalid password'' None)
       \<and> (\<forall>u h token. find_one (docs s) (PStr em) = Some u
                 \<and> dict_get (attrs u) ''password'' = Some (PStr h) \<and> h \<noteq> []
                 \<and> checkpw e pw h = Inr True
                 \<and> jwt_encode e
                      [(''user_id'', PStr (oid u)), (''email'', PStr em),
                       (''exp'', PDatetime (now + timedelta_days JWT_EXPIRE_DAYS))]
                      (JWT_SECRET e) JWT_ALGO = Inr token
            \<longrightarrow> login e s req now
                  = LoginSuccess token
                      (dict_set ''_id'' (PStr (oid u)) (dict_pop ''password'' (doc_dict u)))
              \<and> dict_get (dict_set ''_id'' (PStr (oid u)) (dict_pop ''password'' (doc_dict u)))
                    ''password'' = None
              \<and> (\<forall>k. k \<noteq> ''password'' \<and> k \<noteq> ''_id''
                    \<longrightarrow> dict_get (dict_set ''_id'' (PStr (oid u))
                                   (dict_pop ''password'' (doc_dict u))) k
                        = dict_get (attrs u) k))"
proof (intro conjI impI allI)
  assume "find_one (docs s) (PStr em) = None"
  then show "login e s req now = StatusFailure ''invalid username'' None"
    by (simp add: login_text_fields [OF assms] login_user_def)
next
  fix u h
  assume "find_one (docs s) (PStr em) = Some u
                 \<and> dict_get (attrs u) ''password'' = Some (PStr h)
                 \<and> checkpw e pw h = Inr False"
  then show "login e s req now = StatusFailure ''invalid password'' None"
    by (simp add: login_text_fields [OF assms] login_user_def dict_get_doc_dict truthy_opt_def)
next
  fix u h token
  assume a: "find_one (docs s) (PStr em) = Some u
                 \<and> dict_get (attrs u) ''password'' = Some (PStr h) \<and> h \<noteq> []
                 \<and> checkpw e pw h = Inr True
                 \<and> jwt_encode e
                      [(''user_id'', PStr (oid u)), (''email'', PStr em),
                       (''exp'', PDatetime (now + timedelta_days JWT_EXPIRE_DAYS))]
                      (JWT_SECRET e) JWT_ALGO = Inr token"
  then have "dict_get (attrs u) ''email'' = Some (PStr em)"
    using find_one_Some [of "docs s" "PStr em" u] by (simp add: matches_def)
  then have "dict_get_default (dict_set ''_id'' (PStr (oid u))
               (dict_pop ''password'' (doc_dict u))) ''email'' PNone = PStr em"
    by (simp add: dict_get_default_def dict_get_set dict_get_pop dict_get_doc_dict)
  with a show "login e s req now
                  = LoginSuccess token
                      (dict_set ''_id'' (PStr (oid u)) (dict_pop ''password'' (doc_dict u)))"
    by (simp add: login_text_fields [OF assms] login_user_def dict_get_doc_dict truthy_opt_def)
next
  fix u
  show "dict_get (dict_set ''_id'' (PStr (oid u)) (dict_pop ''password'' (doc_dict u)))
          ''password'' = None"
    by (simp add: dict_get_set dict_get_pop)
next
  fix u k
  assume "k \<noteq> ''password'' \<and> k \<noteq> ''_id''"
  then show "dict_get (dict_set ''_id'' (PStr (oid u)) (dict_pop ''password'' (doc_dict u))) k
                        = dict_get (attrs u) k"
    by (simp add: dict_get_set dict_get_pop dict_get_doc_dict)
qed

text \<open>
  The three outcomes against the server that holds Alice's record: an unknown email, a
  wrong password, the right password.
\<close>

theorem login_outcomes_witness:
  "find_one (docs alice_state) (PStr ''carol@example.com'') = None
   \<and> login ref_env alice_state (login_form ''carol@example.com'' ''secret1'') 1000
       = StatusFailure ''invalid username'' None
   \<and> find_one (docs alice_state) (PStr ''alice@example.com'') = Some alice_doc
   \<and> checkpw ref_env ''wrong12'' ''$2b$salt$secret1'' = Inr False
   \<and> login ref_env alice_state (login_form ''alice@example.com'' ''wrong12'') 1000
       = StatusFailure ''invalid password'' None
   \<and> checkpw ref_env ''secret1'' ''$2b$salt$secret1'' = Inr True
   \<and> login ref_env alice_state (login_form ''alice@example.com'' ''secret1'') 1000
       = LoginSuccess ''HS256.change_this_secret_in_prod''
           [(''_id'', PStr ''id1''), (''firstName'', PStr ''Alice''),
            (''lastName'', PStr ''Liddell''), (''age'', PInt 30),
            (''email'', PStr ''alice@example.com''), (''mobileNo'', PStr ''0123456789''),
            (''profilePic'', PStr ''uploads/a.png'')]"
proof -
  have none: "find_one (docs alice_state) (PStr ''carol@example.com'') = None"
    by code_simp
  have some: "find_one (docs alice_state) (PStr ''alice@example.com'') = Some alice_doc"
    by code_simp
  have stored: "dict_get (attrs alice_doc) ''password'' = Some (PStr ''$2b$salt$secret1'')"
    by code_simp
  have wrong: "checkpw ref_env ''wrong12'' ''$2b$salt$secret1'' = Inr False"
    by code_simp
  have right: "checkpw ref_env ''secret1'' ''$2b$salt$secret1'' = Inr True"
    by code_simp
  have token: "jwt_encode ref_env
                 [(''user_id'', PStr (oid alice_doc)), (''email'', PStr ''alice@example.com''),
                  (''exp'', PDatetime (1000 + timedelta_days JWT_EXPIRE_DAYS))]
                 (JWT_SECRET ref_env) JWT_ALGO = Inr ''HS256.change_this_secret_in_prod''"
    by (simp add: ref_env_def ref_jwt_encode_def JWT_SECRET_def JWT_ALGO_def)
  have user: "dict_set ''_id'' (PStr (oid alice_doc)) (dict_pop ''password'' (doc_dict alice_doc))
      = [(''_id'', PStr ''id1''), (''firstName'', PStr ''Alice''),
            (''lastName'', PStr ''Liddell''), (''age'', PInt 30),
            (''email'', PStr ''alice@example.com''), (''mobileNo'', PStr ''0123456789''),
            (''profilePic'', PStr ''uploads/a.png'')]"
    by code_simp
  have a: "login ref_env alice_state (login_form ''carol@example.com'' ''secret1'') 1000
       = StatusFailure ''invalid username'' None"
    using login_outcomes
            [OF login_form_fields(1) login_form_fields(2) login_form_fields(3) _
                login_form_fields(4) _,
             where em = "''carol@example.com''" and pw = "''secret1''" and s = alice_state
               and e = ref_env and now = 1000] none
    by simp
  have b: "login ref_env alice_state (login_form ''alice@example.com'' ''wrong12'') 1000
       = StatusFailure ''invalid password'' None"
    using login_outcomes
            [OF login_form_fields(1) login_form_fields(2) login_form_fields(3) _
                login_form_fields(4) _,
             where em = "''alice@example.com''" and pw = "''wrong12''" and s = alice_state
               and e = ref_env and now = 1000] some stored wrong
    by simp
  have c: "login ref_env alice_state (login_form ''alice@example.com'' ''secret1'') 1000
       = LoginSuccess ''HS256.change_this_secret_in_prod''
           (dict_set ''_id'' (PStr (oid alice_doc)) (dict_pop ''password'' (doc_dict alice_doc)))"
    using login_outcomes
            [OF login_form_fields(1) login_form_fields(2) login_form_fields(3) _
                login_form_fields(4) _,
             where em = "''alice@example.com''" and pw = "''secret1''" and s = alice_state
               and e = ref_env and now = 1000] some stored right token
    by simp
  from none a some wrong b right c user show ?thesis by simp
qed

text \<open>
  Claim C3 as stated fails: a multipart login that submits an email which no record
  matches, but no password, is answered "No email or password provided", not
  "invalid username".
\<close>

theorem login_missing_password_counterexample:
  "py_in ''multipart/form-data''
      (content_type (multipart_request [(''email'', Text ''nobody@example.com'')]))
   \<and> find_one (docs empty_state) (PStr ''nobody@example.com'') = None
   \<and> login ref_env empty_state (multipart_request [(''email'', Text ''nobody@example.com'')]) 0
       = StatusFailure ''No email or password provided'' None
   \<and> login ref_env empty_state (multipart_request [(''email'', Text ''nobody@example.com'')]) 0
       \<noteq> StatusFailure ''invalid username'' None"
  by code_simp

text \<open>
  Claim C4, checked on the code. For a login that reaches the lookup and finds a record:
  a stored hash that is absent or false in Python's sense (\<^verbatim>\<open>None\<close>, the empty string)
  gives the answer "invalid password"; but a stored non-empty string on which
  \<^verbatim>\<open>bcrypt.checkpw\<close> raises, as it does on a string that is no hash, is not caught: the
  fault leaves the handler. The first half is what the claim says, the second is not.
\<close>

theorem login_stored_hash_cases:
  assumes "py_in ''multipart/form-data'' (content_type req)"
      and "form_body req = Inr items"
      and "map_of (form_dict items) ''email'' = Some (Text em)" "em \<noteq> []"
      and "map_of (form_dict items) ''password'' = Some (Text pw)" "pw \<noteq> []"
      and "find_one (docs s) (PStr em) = Some u"
  shows "(\<not> truthy_opt (dict_get (attrs u) ''password'')
            \<longrightarrow> login e s req now = StatusFailure ''invalid password'' None)
       \<and> (\<forall>h f. dict_get (attrs u) ''password'' = Some (PStr h) \<and> h \<noteq> []
                 \<and> checkpw e pw h = Inl f
            \<longrightarrow> login e s req now = Unhandled f)"
  using assms(7)
  by (simp add: login_text_fields [OF assms(1-6)] login_user_def dict_get_doc_dict truthy_opt_def)

text \<open>
  Bob's record holds the string \<^verbatim>\<open>plaintext\<close> as its password; a login for Bob ends in
  the \<^verbatim>\<open>ValueError\<close> of \<^verbatim>\<open>bcrypt.checkpw\<close>.
\<close>

theorem login_stored_hash_cases_witness:
  "find_one (docs legacy_state) (PStr ''bob@example.com'') = Some legacy_doc
   \<and> dict_get (attrs legacy_doc) ''password'' = Some (PStr ''plaintext'')
   \<and> checkpw ref_env ''hunter22'' ''plaintext'' = Inl (Fault ''ValueError'')
   \<and> login ref_env legacy_state (login_form ''bob@example.com'' ''hunter22'') 0
       = Unhandled (Fault ''ValueError'')"
proof -
  have some: "find_one (docs legacy_state) (PStr ''bob@example.com'') = Some legacy_doc"
    by code_simp
  have stored: "dict_get (attrs legacy_doc) ''password'' = Some (PStr ''plaintext'')"
    by code_simp
  have raises: "checkpw ref_env ''hunter22'' ''plaintext'' = Inl (Fault ''ValueError'')"
    by code_simp
  from login_stored_hash_cases
         [OF login_form_fields(1) login_form_fields(2) login_form_fields(3) _
             login_form_fields(4) _ some,
          where pw = "''hunter22''" and e = ref_env and now = 0]
    some stored raises
  show ?thesis by simp
qed

section \<open>Delete profile\<close>

lemma delete_one_None: "find_one ds em = None \<Longrightarrow> delete_one ds em = (ds, 0)"
  by (induction ds) (auto simp: find_one_def split: if_splits)

lemma delete_one_Some: "find_one ds em = Some u \<Longrightarrow> delete_one ds em = (remove1 u ds, 1)"
proof (induction ds)
  case Nil
  then show ?case by (simp add: find_one_def)
next
  case (Cons d ds)
  show ?case
  proof (cases "matches em d")
    case True
    with Cons.prems show ?thesis by (simp add: find_one_def)
  next
    case False
    with Cons.prems have u: "find_one ds em = Some u" by (simp add: find_one_def)
    with False have "d \<noteq> u" using find_one_Some [OF u] by auto
    with Cons.IH [OF u] False show ?thesis by simp
  qed
qed

lemma filter_remove1_first:
  "find_one ds em = Some u \<Longrightarrow> filter (matches em) (remove1 u ds) = tl (filter (matches em) ds)"
proof (induction ds)
  case Nil
  then show ?case by (simp add: find_one_def)
next
  case (Cons d ds)
  show ?case
  proof (cases "matches em d")
    case True
    with Cons.prems show ?thesis by (simp add: find_one_def)
  next
    case False
    with Cons.prems have u: "find_one ds em = Some u" by (simp add: find_one_def)
    with False have "d \<noteq> u" using find_one_Some [OF u] by auto
    with Cons.IH [OF u] False show ?thesis by simp
  qed
qed

lemma find_one_filter: "find_one ds em = None \<longleftrightarrow> filter (matches em) ds = []"
  by (simp add: find_one_None filter_empty_conv)

text \<open>
  Claim C8, as the code has it. For a delete request with a non-empty email: when no
  stored record matches, the answer is the failure "user not found" and the state is
  unchanged; when a record matches, the first matching record, and only that one, is
  removed and the answer is a success, so that one record fewer carries the email. When
  it was the only record under that email, a lookup afterwards finds none, and a login
  that submits the email and a password fails with "invalid username". An empty email,
  and an email that several records share, behave otherwise: see the counterexample below.
\<close>

theorem delete_outcomes:
  assumes "em \<noteq> []"
  shows "(find_one (docs s) (PStr em) = None
            \<longrightarrow> delete_profile s em = (s, StatusFailure ''user not found'' None))
       \<and> (\<forall>u. find_one (docs s) (PStr em) = Some u
            \<longrightarrow> delete_profile s em
                  = (s\<lparr>docs := remove1 u (docs s)\<rparr>, StatusSuccess ''Profile deleted successfully'')
              \<and> Suc (length (filter (matches (PStr em)) (remove1 u (docs s))))
                  = length (filter (matches (PStr em)) (docs s))
              \<and> (length (filter (matches (PStr em)) (docs s)) = 1
                  \<longrightarrow> find_one (remove1 u (docs s)) (PStr em) = None
                    \<and> (\<forall>(e::env) (req::request) items pw now.
                          py_in ''multipart/form-data'' (content_type req)
                        \<and> form_body req = Inr items
                        \<and> map_of (form_dict items) ''email'' = Some (Text em)
                        \<and> map_of (form_dict items) ''password'' = Some (Text pw) \<and> pw \<noteq> []
                        \<longrightarrow> login e (s\<lparr>docs := remove1 u (docs s)\<rparr>) req now
                              = StatusFailure ''invalid username'' None)))"
proof (intro conjI allI impI)
  assume "find_one (docs s) (PStr em) = None"
  with assms show "delete_profile s em = (s, StatusFailure ''user not found'' None)"
    by (simp add: delete_profile_def)
next
  fix u
  assume u: "find_one (docs s) (PStr em) = Some u"
  with assms show "delete_profile s em
       = (s\<lparr>docs := remove1 u (docs s)\<rparr>, StatusSuccess ''Profile deleted successfully'')"
    by (simp add: delete_profile_def delete_one_Some)
  have ne: "filter (matches (PStr em)) (docs s) \<noteq> []"
    using u find_one_filter [of "docs s" "PStr em"] by simp
  then show "Suc (length (filter (matches (PStr em)) (remove1 u (docs s))))
               = length (filter (matches (PStr em)) (docs s))"
    by (simp add: filter_remove1_first [OF u])
  assume one: "length (filter (matches (PStr em)) (docs s)) = 1"
  then show none: "find_one (remove1 u (docs s)) (PStr em) = None"
    by (cases "filter (matches (PStr em)) (docs s)")
       (simp_all add: find_one_filter filter_remove1_first [OF u])
  fix e :: env and req :: request and items pw now
  assume "py_in ''multipart/form-data'' (content_type req)
        \<and> form_body req = Inr items
        \<and> map_of (form_dict items) ''email'' = Some (Text em)
        \<and> map_of (form_dict items) ''password'' = Some (Text pw) \<and> pw \<noteq> []"
  with assms none
  show "login e (s\<lparr>docs := remove1 u (docs s)\<rparr>) req now = StatusFailure ''invalid username'' None"
    by (simp add: login_def form_truthy_def login_user_def)
qed

text \<open>
  Deleting Carol, who has no record, changes nothing; deleting Alice, who has one,
  empties the collection, and Alice's next login is refused as an unknown user.
\<close>

theorem delete_outcomes_witness:
  "find_one (docs alice_state) (PStr ''carol@example.com'') = None
   \<and> delete_profile alice_state ''carol@example.com''
       = (alice_state, StatusFailure ''user not found'' None)
   \<and> find_one (docs alice_state) (PStr ''alice@example.com'') = Some alice_doc
   \<and> length (filter (matches (PStr ''alice@example.com'')) (docs alice_state)) = 1
   \<and> delete_profile alice_state ''alice@example.com''
       = (empty_state, StatusSuccess ''Profile deleted successfully'')
   \<and> login ref_env empty_state (login_form ''alice@example.com'' ''secret1'') 0
       = StatusFailure ''invalid username'' None"
proof -
  have none: "find_one (docs alice_state) (PStr ''carol@example.com'') = None"
    by code_simp
  have some: "find_one (docs alice_state) (PStr ''alice@example.com'') = Some alice_doc"
    by code_simp
  have one: "length (filter (matches (PStr ''alice@example.com'')) (docs alice_state)) = 1"
    by code_simp
  have st: "alice_state\<lparr>docs := remove1 alice_doc (docs alice_state)\<rparr> = empty_state"
    by (simp add: alice_state_def empty_state_def)
  have a: "delete_profile alice_state ''carol@example.com''
       = (alice_state, StatusFailure ''user not found'' None)"
    using delete_outcomes [of "''carol@example.com''" alice_state] none by simp
  have ne: "''alice@example.com'' \<noteq> []" by simp
  note D = delete_outcomes [OF ne, of alice_state, THEN conjunct2, rule_format, OF some]
  have b: "delete_profile alice_state ''alice@example.com''
       = (empty_state, StatusSuccess ''Profile deleted successfully'')"
    using D [THEN conjunct1] unfolding st .
  have c: "login ref_env empty_state (login_form ''alice@example.com'' ''secret1'') 0
       = StatusFailure ''invalid username'' None"
    using D [THEN conjunct2, THEN conjunct2] one
      login_form_fields [of "''alice@example.com''" "''secret1''"]
    unfolding st by blast
  from none a some one b c show ?thesis by simp
qed

text \<open>
  Claim C8 as stated fails twice. With an empty email the answer is "email is required",
  not "user not found". And after two signups under one email (claim C10) a delete
  removes only the first of the two records: the lookup still finds the other, and the
  login that follows is not refused as "invalid username" but succeeds.
\<close>

theorem delete_counterexample:
  "find_one (docs empty_state) (PStr '''') = None
   \<and> delete_profile empty_state '''' = (empty_state, StatusFailure ''email is required'' None)
   \<and> signup ref_env alice_state (json_request alice_json) ''salt'' ''id2''
       = (twin_state, SignupOk ''id2'')
   \<and> find_one (docs twin_state) (PStr ''alice@example.com'') = Some alice_doc
   \<and> delete_profile twin_state ''alice@example.com''
       = (\<lparr>docs = [alice_twin], files = []\<rparr>, StatusSuccess ''Profile deleted successfully'')
   \<and> find_one [alice_twin] (PStr ''alice@example.com'') = Some alice_twin
   \<and> login ref_env \<lparr>docs = [alice_twin], files = []\<rparr>
         (login_form ''alice@example.com'' ''secret1'') 0
       \<noteq> StatusFailure ''invalid username'' None"
  by code_simp

section \<open>Update profile\<close>

lemma distinct_form_dict_aux:
  "distinct (map fst acc) \<Longrightarrow>
   distinct (map fst (foldl (\<lambda>acc (k, v). AList.update k v acc) acc items))"
  by (induction items arbitrary: acc) (auto simp: distinct_update)

lemma distinct_form_dict: "distinct (map fst (form_dict items))"
  by (simp add: form_dict_def distinct_form_dict_aux)

lemma update_read_form_get:
  "distinct (map fst items) \<Longrightarrow> update_read_form e items data fs = (fs', Inr data') \<Longrightarrow>
   dict_get data' k =
     (case map_of items k of
        None \<Rightarrow> dict_get data k
      | Some (Text t) \<Rightarrow> Some (PStr t)
      | Some (UploadFile n b) \<Rightarrow>
          if n = [] then dict_get data k else Some (PStr (path_join UPLOAD_DIR n)))"
proof (induction e items data fs rule: update_read_form.induct)
  case (1 e data fs)
  then show ?case by simp
next
  case (2 e key filename bytes rest data fs)
  from "2.prems" have none: "map_of rest key = None" and d: "distinct (map fst rest)"
    by (auto simp: map_of_eq_None_iff)
  show ?case
  proof (cases "filename = []")
    case True
    with "2.prems" have r: "update_read_form e rest data fs = (fs', Inr data')" by simp
    from True have "\<not> filename \<noteq> []" by simp
    from "2.IH"(2) [OF this d r] none True show ?thesis by simp
  next
    case False
    with "2.prems" have r: "update_read_form e rest
        (dict_set key (PStr (path_join UPLOAD_DIR filename)) data)
        (write_file (path_join UPLOAD_DIR filename) bytes fs) = (fs', Inr data')"
      and w: "fs_writable e (path_join UPLOAD_DIR filename)"
      by (auto simp: Let_def split: if_splits)
    from "2.IH"(1) [OF False refl w d r] none False show ?thesis
      by (auto simp: dict_get_set split: option.splits fval.splits)
  qed
next
  case (3 e key t rest data fs)
  from "3.prems" have none: "map_of rest key = None" and d: "distinct (map fst rest)"
    by (auto simp: map_of_eq_None_iff)
  from "3.prems" have "update_read_form e rest (dict_set key (PStr t) data) fs = (fs', Inr data')"
    by simp
  from "3.IH" [OF d this] none show ?case
    by (auto simp: dict_get_set split: option.splits fval.splits)
qed

lemma update_read_form_files_mono:
  "update_read_form e items data fs = (fs', r) \<Longrightarrow> fst ` set fs \<subseteq> fst ` set fs'"
proof (induction e items data fs rule: update_read_form.induct)
  case (1 e data fs)
  then show ?case by simp
next
  case (2 e key filename bytes rest data fs)
  then show ?case
    by (auto simp: Let_def write_file_def dom_update split: if_splits)
next
  case (3 e key t rest data fs)
  then show ?case by simp
qed

lemma update_read_form_written:
  "update_read_form e items data fs = (fs', Inr data') \<Longrightarrow>
   (k, UploadFile n b) \<in> set items \<Longrightarrow> n \<noteq> [] \<Longrightarrow>
   path_join UPLOAD_DIR n \<in> fst ` set fs'"
proof (induction e items data fs rule: update_read_form.induct)
  case (1 e data fs)
  then show ?case by simp
next
  case (2 e key filename bytes rest data fs)
  show ?case
  proof (cases "(k, UploadFile n b) = (key, UploadFile filename bytes)")
    case True
    with 2 have "update_read_form e rest (dict_set key (PStr (path_join UPLOAD_DIR n)) data)
                   (write_file (path_join UPLOAD_DIR n) bytes fs) = (fs', Inr data')"
      by (auto simp: Let_def split: if_splits)
    from update_read_form_files_mono [OF this] show ?thesis
      by (auto simp: write_file_def dom_update)
  next
    case False
    with 2 show ?thesis
      by (auto simp: Let_def split: if_splits)
  qed
next
  case (3 e key t rest data fs)
  then show ?case by auto
qed
lemma update_read_form_email:
  assumes "update_read_form e (form_dict items) [] fs = (fs', Inr data)"
  shows "dict_get data ''email'' = submitted_email items"
  using update_read_form_get [OF distinct_form_dict assms, of "''email''"]
  by (auto simp: submitted_email_def update_field_value_def dict_get_def
           split: option.splits fval.splits)

text \<open>
  What a path holds after the loop: what it held before, unless an upload of the form
  was stored under it, and then the content of such an upload.
\<close>

lemma update_read_form_keeps:
  "update_read_form e items data fs = (fs', Inr data') \<Longrightarrow> map_of fs p = Some c \<Longrightarrow>
   map_of fs' p = Some c
   \<or> (\<exists>k n c'. (k, UploadFile n c') \<in> set items \<and> n \<noteq> []
          \<and> path_join UPLOAD_DIR n = p \<and> map_of fs' p = Some c')"
proof (induction e items data fs arbitrary: c rule: update_read_form.induct)
  case (1 e data fs)
  then show ?case by simp
next
  case (2 e key filename bytes rest data fs)
  show ?case
  proof (cases "filename = []")
    case True
    with "2.prems" have r: "update_read_form e rest data fs = (fs', Inr data')" by simp
    from True have "\<not> filename \<noteq> []" by simp
    from "2.IH"(2) [OF this r "2.prems"(2)] show ?thesis by auto
  next
    case False
    let ?path = "path_join UPLOAD_DIR filename"
    from False "2.prems" have r: "update_read_form e rest (dict_set key (PStr ?path) data)
        (write_file ?path bytes fs) = (fs', Inr data')"
      and w: "fs_writable e ?path"
      by (auto simp: Let_def split: if_splits)
    let ?c2 = "if p = ?path then bytes else c"
    have m: "map_of (write_file ?path bytes fs) p = Some ?c2"
      using "2.prems"(2) by (simp add: write_file_def update_conv')
    from "2.IH"(1) [OF False refl w r m]
    consider "map_of fs' p = Some ?c2"
      | "\<exists>k n c'. (k, UploadFile n c') \<in> set rest \<and> n \<noteq> []
            \<and> path_join UPLOAD_DIR n = p \<and> map_of fs' p = Some c'"
      by blast
    then show ?thesis
    proof cases
      case 1
      show ?thesis
      proof (cases "p = ?path")
        case True
        with 1 False have "(key, UploadFile filename bytes) \<in> set ((key, UploadFile filename bytes) # rest)
            \<and> filename \<noteq> [] \<and> path_join UPLOAD_DIR filename = p \<and> map_of fs' p = Some bytes"
          by simp
        then show ?thesis by blast
      next
        case False
        with 1 show ?thesis by simp
      qed
    next
      case 2
      then show ?thesis by auto
    qed
  qed
next
  case (3 e key t rest data fs)
  from "3.prems" have "update_read_form e rest (dict_set key (PStr t) data) fs = (fs', Inr data')"
    by simp
  from "3.IH" [OF this "3.prems"(2)] show ?case by auto
qed

lemma update_read_form_stored:
  "update_read_form e items data fs = (fs', Inr data') \<Longrightarrow>
   (k, UploadFile n b) \<in> set items \<Longrightarrow> n \<noteq> [] \<Longrightarrow>
   \<exists>k' n' c. (k', UploadFile n' c) \<in> set items \<and> n' \<noteq> []
      \<and> path_join UPLOAD_DIR n' = path_join UPLOAD_DIR n
      \<and> map_of fs' (path_join UPLOAD_DIR n) = Some c"
proof (induction e items data fs rule: update_read_form.induct)
  case (1 e data fs)
  then show ?case by simp
next
  case (2 e key filename bytes rest data fs)
  let ?p = "path_join UPLOAD_DIR n"
  show ?case
  proof (cases "filename = []")
    case True
    with "2.prems" have r: "update_read_form e rest data fs = (fs', Inr data')"
      and i: "(k, UploadFile n b) \<in> set rest"
      by auto
    from True have "\<not> filename \<noteq> []" by simp
    from "2.IH"(2) [OF this r i "2.prems"(3)] show ?thesis by auto
  next
    case False
    let ?path = "path_join UPLOAD_DIR filename"
    from False "2.prems" have r: "update_read_form e rest (dict_set key (PStr ?path) data)
        (write_file ?path bytes fs) = (fs', Inr data')"
      and w: "fs_writable e ?path"
      by (auto simp: Let_def split: if_splits)
    show ?thesis
    proof (cases "(k, UploadFile n b) \<in> set rest")
      case True
      from "2.IH"(1) [OF False refl w r True "2.prems"(3)] show ?thesis by auto
    next
      case notin: False
      with "2.prems"(2) have h: "n = filename" "b = bytes" by auto
      have "map_of (write_file ?path bytes fs) ?p = Some bytes"
        using h by (simp add: write_file_def update_conv')
      from update_read_form_keeps [OF r this]
      consider "map_of fs' ?p = Some bytes"
        | "\<exists>k' n' c. (k', UploadFile n' c) \<in> set rest \<and> n' \<noteq> []
              \<and> path_join UPLOAD_DIR n' = ?p \<and> map_of fs' ?p = Some c"
        by blast
      then show ?thesis
      proof cases
        case 1
        with h False have "(key, UploadFile filename bytes) \<in> set ((key, UploadFile filename bytes) # rest)
            \<and> filename \<noteq> [] \<and> path_join UPLOAD_DIR filename = ?p \<and> map_of fs' ?p = Some bytes"
          by simp
        then show ?thesis by blast
      next
        case 2
        then show ?thesis by auto
      qed
    qed
  qed
next
  case (3 e key t rest data fs)
  from "3.prems" have r: "update_read_form e rest (dict_set key (PStr t) data) fs = (fs', Inr data')"
    and i: "(k, UploadFile n b) \<in> set rest"
    by auto
  from "3.IH" [OF r i "3.prems"(3)] show ?case by auto
qed

lemma path_join_inj: "path_join UPLOAD_DIR a = path_join UPLOAD_DIR b \<Longrightarrow> a = b"
  by (auto simp: path_join_def UPLOAD_DIR_def prefix_def suffix_def split: if_splits)

lemma update_read_form_stored_name:
  assumes "update_read_form e items data fs = (fs', Inr data')"
      and "(k, UploadFile n b) \<in> set items" and "n \<noteq> []"
  shows "\<exists>k' c. (k', UploadFile n c) \<in> set items
           \<and> map_of fs' (path_join UPLOAD_DIR n) = Some c"
proof -
  from update_read_form_stored [OF assms] obtain k' n' c where
    "(k', UploadFile n' c) \<in> set items" "path_join UPLOAD_DIR n' = path_join UPLOAD_DIR n"
    "map_of fs' (path_join UPLOAD_DIR n) = Some c"
    by blast
  with path_join_inj [of n' n] show ?thesis by blast
qed

lemma update_one_None: "find_one ds em = None \<Longrightarrow> update_one ds em upd = (ds, 0)"
  by (induction ds) (auto simp: find_one_def split: if_splits)

lemma update_one_Some:
  "find_one ds em = Some u \<Longrightarrow>
   \<exists>pre post. ds = pre @ u # post \<and> (\<forall>d \<in> set pre. \<not> matches em d)
     \<and> update_one ds em upd = (pre @ u\<lparr>attrs := set_fields upd (attrs u)\<rparr> # post, 1)"
proof (induction ds)
  case Nil
  then show ?case by (simp add: find_one_def)
next
  case (Cons d ds)
  show ?case
  proof (cases "matches em d")
    case True
    with Cons.prems have "d = u" by (simp add: find_one_def)
    with True show ?thesis by (intro exI [of _ "[]"] exI [of _ ds]) simp
  next
    case False
    with Cons.prems have "find_one ds em = Some u" by (simp add: find_one_def)
    from Cons.IH [OF this] obtain pre post where
      "ds = pre @ u # post" "\<forall>d \<in> set pre. \<not> matches em d"
      "update_one ds em upd = (pre @ u\<lparr>attrs := set_fields upd (attrs u)\<rparr> # post, 1)"
      by blast
    with False show ?thesis by (intro exI [of _ "d # pre"] exI [of _ post]) simp
  qed
qed

lemma SignupModel_password:
  "SignupModel e data = Inr m \<Longrightarrow>
   dict_get data ''password'' = Some (PStr (password m)) \<and> 6 \<le> length (password m)"
  unfolding SignupModel_def Let_def
  by (auto simp: field_def str_field_def split: sum.splits option.splits pyval.splits if_splits)

lemma SignupModel_profilePic:
  "SignupModel e data = Inr m \<Longrightarrow> dict_get data ''profilePic'' = Some (PStr (profilePic m))"
  unfolding SignupModel_def Let_def
  by (auto simp: field_def str_field_def split: sum.splits option.splits pyval.splits if_splits)

lemma update_doc_explicit:
  "dict_set ''password'' pwd (model_dump m) =
     [(''firstName'', PStr (firstName m)), (''lastName'', PStr (lastName m)),
      (''age'', PInt (age m)), (''email'', PStr (email m)),
      (''password'', pwd), (''mobileNo'', PStr (mobileNo m)),
      (''profilePic'', PStr (profilePic m))]"
  by (simp add: dict_set_def model_dump_def)

lemma set_fields_password:
  "dict_get (set_fields (dict_set ''password'' pwd (model_dump m)) a) ''password'' = Some pwd"
  by (simp add: update_doc_explicit set_fields_def dict_get_set)

lemma set_fields_profilePic:
  "dict_get (set_fields (dict_set ''password'' pwd (model_dump m)) a) ''profilePic''
     = Some (PStr (profilePic m))"
  by (simp add: update_doc_explicit set_fields_def dict_get_set)

lemma update_merge_cases:
  assumes "update_merge e s data salt = (s', r)"
  obtains (unchanged) "s' = s" "\<forall>msg. r \<noteq> StatusSuccess msg"
  | (updated) em u m pwd pre post where
      "dict_get data ''email'' = Some em" "truthy em"
      "find_one (docs s) em = Some u"
      "docs s = pre @ u # post" "\<forall>d \<in> set pre. \<not> matches em d"
      "SignupModel e (keep_password (doc_dict u) (keep_profilePic (doc_dict u) data)) = Inr m"
      "(skip_hash (keep_profilePic (doc_dict u) data)
          \<and> pwd = dict_get_default (doc_dict u) ''password'' (PStr []))
       \<or> (\<not> skip_hash (keep_profilePic (doc_dict u) data)
          \<and> (\<exists>h. hashpw e (password m) salt = Inr h \<and> pwd = PStr h))"
      "s' = s\<lparr>docs := pre @ u\<lparr>attrs := set_fields (dict_set ''password'' pwd (model_dump m))
                                        (attrs u)\<rparr> # post\<rparr>"
      "r = StatusSuccess ''Profile updated successfully''"
proof (cases "dict_get data ''email''")
  case None
  with assms have "s' = s" "\<forall>msg. r \<noteq> StatusSuccess msg"
    by (auto simp: update_merge_def)
  then show ?thesis by (rule unchanged)
next
  case (Some em)
  show ?thesis
  proof (cases "truthy em \<and> find_one (docs s) em \<noteq> None")
    case False
    with assms Some have "s' = s" "\<forall>msg. r \<noteq> StatusSuccess msg"
      by (auto simp: update_merge_def split: if_splits option.splits)
    then show ?thesis by (rule unchanged)
  next
    case True
    then obtain u where t: "truthy em" and u: "find_one (docs s) em = Some u" by auto
    let ?d1 = "keep_profilePic (doc_dict u) data"
    let ?d2 = "keep_password (doc_dict u) ?d1"
    show ?thesis
    proof (cases "SignupModel e ?d2")
      case (Inl errs)
      with assms Some t u have "s' = s" "\<forall>msg. r \<noteq> StatusSuccess msg"
        by (auto simp: update_merge_def Let_def)
      then show ?thesis by (rule unchanged)
    next
      case (Inr m)
      show ?thesis
      proof (cases "skip_hash ?d1")
        case True
        let ?pwd = "dict_get_default (doc_dict u) ''password'' (PStr [])"
        from update_one_Some [OF u, of "dict_set ''password'' ?pwd (model_dump m)"]
        obtain pre post where p: "docs s = pre @ u # post" "\<forall>d \<in> set pre. \<not> matches em d"
          "update_one (docs s) em (dict_set ''password'' ?pwd (model_dump m))
             = (pre @ u\<lparr>attrs := set_fields (dict_set ''password'' ?pwd (model_dump m)) (attrs u)\<rparr> # post, 1)"
          by blast
        with assms Some t u Inr True
        have "s' = s\<lparr>docs := pre @ u\<lparr>attrs := set_fields (dict_set ''password'' ?pwd (model_dump m)) (attrs u)\<rparr> # post\<rparr>"
          "r = StatusSuccess ''Profile updated successfully''"
          by (auto simp: update_merge_def Let_def update_store_def)
        with Some t u p Inr True show ?thesis
          by (intro updated [of em u pre post m ?pwd]) auto
      next
        case False
        show ?thesis
        proof (cases "hashpw e (password m) salt")
          case (Inl f)
          with assms Some t u Inr False have "s' = s" "\<forall>msg. r \<noteq> StatusSuccess msg"
            by (auto simp: update_merge_def Let_def)
          then show ?thesis by (rule unchanged)
        next
          case (Inr h)
          let ?pwd = "PStr h"
          from update_one_Some [OF u, of "dict_set ''password'' ?pwd (model_dump m)"]
          obtain pre post where p: "docs s = pre @ u # post" "\<forall>d \<in> set pre. \<not> matches em d"
            "update_one (docs s) em (dict_set ''password'' ?pwd (model_dump m))
               = (pre @ u\<lparr>attrs := set_fields (dict_set ''password'' ?pwd (model_dump m)) (attrs u)\<rparr> # post, 1)"
            by blast
          with assms Some t u \<open>SignupModel e ?d2 = Inr m\<close> False Inr
          have "s' = s\<lparr>docs := pre @ u\<lparr>attrs := set_fields (dict_set ''password'' ?pwd (model_dump m)) (attrs u)\<rparr> # post\<rparr>"
            "r = StatusSuccess ''Profile updated successfully''"
            by (auto simp: update_merge_def Let_def update_store_def)
          with Some t u p \<open>SignupModel e ?d2 = Inr m\<close> False Inr show ?thesis
            by (intro updated [of em u pre post m ?pwd]) auto
        qed
      qed
    qed
  qed
qed
lemma keep_profilePic_get:
  "dict_get (keep_profilePic ex data) k =
     (if k = ''profilePic'' \<and> dict_get data ''profilePic'' = None
      then dict_get ex ''profilePic'' else dict_get data k)"
  by (auto simp: keep_profilePic_def dict_get_set split: option.splits)

lemma keep_password_get:
  "dict_get (keep_password ex data) k =
     (if k = ''password'' \<and> skip_hash data
      then Some (dict_get_default ex ''password'' (PStr [])) else dict_get data k)"
  by (simp add: keep_password_def dict_get_set)

lemma skip_hash_keep_profilePic:
  "skip_hash (keep_profilePic ex data) = (\<not> truthy_opt (dict_get data ''password''))"
  by (simp add: skip_hash_def keep_profilePic_get)

lemma update_profile_cases:
  assumes "update_profile e s req salt = (s', r)"
  obtains (unchanged) "docs s' = docs s" "\<forall>msg. r \<noteq> StatusSuccess msg"
  | (updated) items data em u m pwd pre post where
      "form_body req = Inr items"
      "update_read_form e (form_dict items) [] (files s) = (files s', Inr data)"
      "dict_get data ''email'' = Some em"
      "find_one (docs s) em = Some u"
      "docs s = pre @ u # post"
      "SignupModel e (keep_password (doc_dict u) (keep_profilePic (doc_dict u) data)) = Inr m"
      "(\<not> truthy_opt (dict_get data ''password'')
          \<and> pwd = dict_get_default (doc_dict u) ''password'' (PStr []))
       \<or> (truthy_opt (dict_get data ''password'')
          \<and> (\<exists>h. hashpw e (password m) salt = Inr h \<and> pwd = PStr h))"
      "docs s' = pre @ u\<lparr>attrs := set_fields (dict_set ''password'' pwd (model_dump m))
                                        (attrs u)\<rparr> # post"
      "r = StatusSuccess ''Profile updated successfully''"
      "\<forall>d \<in> set pre. \<not> matches em d"
proof (cases "py_in ''multipart/form-data'' (content_type req)")
  case False
  with assms have "docs s' = docs s" "\<forall>msg. r \<noteq> StatusSuccess msg"
    by (auto simp: update_profile_def)
  then show ?thesis by (rule unchanged)
next
  case ct: True
  show ?thesis
  proof (cases "form_body req")
    case (Inl f)
    with assms ct have "docs s' = docs s" "\<forall>msg. r \<noteq> StatusSuccess msg"
      by (auto simp: update_profile_def)
    then show ?thesis by (rule unchanged)
  next
    case (Inr items)
    obtain fs res where rd: "update_read_form e (form_dict items) [] (files s) = (fs, res)"
      by (cases "update_read_form e (form_dict items) [] (files s)")
    show ?thesis
    proof (cases res)
      case (Inl f)
      with assms ct Inr rd have "docs s' = docs s" "\<forall>msg. r \<noteq> StatusSuccess msg"
        by (auto simp: update_profile_def)
      then show ?thesis by (rule unchanged)
    next
      case data: (Inr data)
      with assms ct Inr rd have um: "update_merge e (s\<lparr>files := fs\<rparr>) data salt = (s', r)"
        by (simp add: update_profile_def)
      from um show ?thesis
      proof (cases rule: update_merge_cases)
        case unchanged
        then have "docs s' = docs s" "\<forall>msg. r \<noteq> StatusSuccess msg" by simp_all
        then show ?thesis by (rule that(1))
      next
        case (updated em u m pwd pre post)
        from updated(8) have f: "files s' = fs" by simp
        show ?thesis
          using Inr rd data updated f
          by (intro that(2) [of items data em u pre post m pwd])
             (auto simp: skip_hash_keep_profilePic)
      qed
    qed
  qed
qed

lemma update_read_form_hashpw:
  "update_read_form (e\<lparr>hashpw := hp\<rparr>) items data fs = update_read_form e items data fs"
proof (induction items arbitrary: data fs)
  case Nil
  show ?case by simp
next
  case (Cons a items)
  obtain k v where a: "a = (k, v)" by (cases a)
  show ?case unfolding a by (cases v) (simp_all add: Cons.IH Let_def)
qed

lemma int_field_hashpw: "int_field (e\<lparr>hashpw := hp\<rparr>) = int_field e"
  by (intro ext) (simp add: int_field_def split: pyval.splits)

lemma email_field_hashpw: "email_field (e\<lparr>hashpw := hp\<rparr>) = email_field e"
  by (intro ext) (simp add: email_field_def split: pyval.splits)

lemma SignupModel_hashpw: "SignupModel (e\<lparr>hashpw := hp\<rparr>) data = SignupModel e data"
  by (simp add: SignupModel_def int_field_hashpw email_field_hashpw)

lemma update_merge_skip_hashpw:
  "\<not> truthy_opt (dict_get data ''password'') \<Longrightarrow>
   update_merge (e\<lparr>hashpw := hp\<rparr>) s data salt = update_merge e s data salt"
  by (simp add: update_merge_def Let_def SignupModel_hashpw skip_hash_keep_profilePic
           split: option.splits sum.splits)

lemma update_profile_skip_hashpw:
  assumes "form_body req = Inr items"
      and "map_of (form_dict items) ''password'' = None
           \<or> map_of (form_dict items) ''password'' = Some (Text [])"
  shows "update_profile (e\<lparr>hashpw := hp\<rparr>) s req salt = update_profile e s req salt"
proof -
  have "\<not> truthy_opt (dict_get data ''password'')"
    if "update_read_form e (form_dict items) [] (files s) = (fs, Inr data)" for fs data
    using update_read_form_get [OF distinct_form_dict that, of "''password''"] assms(2)
    by (auto simp: truthy_opt_def dict_get_def)
  then show ?thesis
    using assms(1)
    by (auto simp: update_profile_def update_read_form_hashpw update_merge_skip_hashpw
             split: prod.splits sum.splits)
qed

lemma kept_password_is_stored:
  assumes "SignupModel e (keep_password (doc_dict u) (keep_profilePic (doc_dict u) data)) = Inr m"
      and "\<not> truthy_opt (dict_get data ''password'')"
  shows "dict_get (attrs u) ''password''
           = Some (dict_get_default (doc_dict u) ''password'' (PStr []))
         \<and> dict_get_default (doc_dict u) ''password'' (PStr []) = PStr (password m)
         \<and> 6 \<le> length (password m)"
proof -
  from SignupModel_password [OF assms(1)] assms(2)
  have p: "dict_get_default (doc_dict u) ''password'' (PStr []) = PStr (password m)"
    and l: "6 \<le> length (password m)"
    by (simp_all add: keep_password_get skip_hash_keep_profilePic)
  from p l have "dict_get (attrs u) ''password''
           = Some (dict_get_default (doc_dict u) ''password'' (PStr []))"
    by (cases "dict_get (attrs u) ''password''")
       (auto simp: dict_get_default_def dict_get_doc_dict)
  with p l show ?thesis by simp
qed

lemma new_password_is_submitted:
  assumes "SignupModel e (keep_password (doc_dict u) (keep_profilePic (doc_dict u) data)) = Inr m"
      and "truthy_opt (dict_get data ''password'')"
  shows "dict_get data ''password'' = Some (PStr (password m))"
  using SignupModel_password [OF assms(1)] assms(2)
  by (simp add: keep_password_get keep_profilePic_get skip_hash_keep_profilePic)

text \<open>
  Claim C6, as the code has it. For an update request whose form was read: when the
  password field is absent or empty, the password stored in every record is after the
  update what it was before (so the old plaintext still verifies), whatever the answer,
  and hashing is skipped: the outcome is the same with any other hashing function in
  place. When a non-empty text password is submitted and the update succeeds, the record
  found under the email now stores the hash of that password made with the drawn salt:
  the email is the one the form submits, the record is the first in the collection that
  matches it, and every other record is as it was. A non-empty password in a submission
  that fails validation replaces nothing: see the counterexample below.
\<close>

theorem update_password_policy:
  assumes "update_profile e s req salt = (s', r)" and "form_body req = Inr items"
  shows "((map_of (form_dict items) ''password'' = None
            \<or> map_of (form_dict items) ''password'' = Some (Text []))
           \<longrightarrow> map (\<lambda>d. dict_get (attrs d) ''password'') (docs s')
                 = map (\<lambda>d. dict_get (attrs d) ''password'') (docs s)
             \<and> (\<forall>hp. update_profile (e\<lparr>hashpw := hp\<rparr>) s req salt = (s', r)))
       \<and> (\<forall>pw msg. map_of (form_dict items) ''password'' = Some (Text pw) \<and> pw \<noteq> []
                    \<and> r = StatusSuccess msg
           \<longrightarrow> (\<exists>h em u u' pre post.
                   hashpw e pw salt = Inr h
                 \<and> submitted_email items = Some em
                 \<and> find_one (docs s) em = Some u
                 \<and> docs s = pre @ u # post \<and> (\<forall>d \<in> set pre. \<not> matches em d)
                 \<and> docs s' = pre @ u' # post \<and> oid u' = oid u
                 \<and> dict_get (attrs u') ''password'' = Some (PStr h)))"
proof (intro conjI impI allI)
  assume absent: "map_of (form_dict items) ''password'' = None
            \<or> map_of (form_dict items) ''password'' = Some (Text [])"
  show "update_profile (e\<lparr>hashpw := hp\<rparr>) s req salt = (s', r)" for hp
    using update_profile_skip_hashpw [OF assms(2) absent] assms(1) by simp
  from assms(1) show "map (\<lambda>d. dict_get (attrs d) ''password'') (docs s')
                 = map (\<lambda>d. dict_get (attrs d) ''password'') (docs s)"
  proof (cases rule: update_profile_cases)
    case unchanged
    then show ?thesis by simp
  next
    case (updated items' data em u m pwd pre post)
    from updated(1) assms(2) have i: "items' = items" by simp
    from update_read_form_get [OF distinct_form_dict updated(2), of "''password''"] absent
    have skip: "\<not> truthy_opt (dict_get data ''password'')"
      unfolding i by (auto simp: truthy_opt_def dict_get_def)
    with updated(7) have pwd: "pwd = dict_get_default (doc_dict u) ''password'' (PStr [])"
      by auto
    from kept_password_is_stored [OF updated(6) skip] pwd
    have "dict_get (attrs u) ''password'' = Some pwd" by simp
    with updated(5,8) show ?thesis by (simp add: set_fields_password)
  qed
next
  fix pw msg
  assume a: "map_of (form_dict items) ''password'' = Some (Text pw) \<and> pw \<noteq> []
                    \<and> r = StatusSuccess msg"
  from assms(1) show "\<exists>h em u u' pre post.
                   hashpw e pw salt = Inr h
                 \<and> submitted_email items = Some em
                 \<and> find_one (docs s) em = Some u
                 \<and> docs s = pre @ u # post \<and> (\<forall>d \<in> set pre. \<not> matches em d)
                 \<and> docs s' = pre @ u' # post \<and> oid u' = oid u
                 \<and> dict_get (attrs u') ''password'' = Some (PStr h)"
  proof (cases rule: update_profile_cases)
    case unchanged
    with a show ?thesis by simp
  next
    case (updated items' data em u m pwd pre post)
    from updated(1) assms(2) have i: "items' = items" by simp
    from update_read_form_get [OF distinct_form_dict updated(2), of "''password''"] a
    have sub: "dict_get data ''password'' = Some (PStr pw)"
      unfolding i by (simp add: dict_get_def)
    with a have t: "truthy_opt (dict_get data ''password'')"
      by (simp add: truthy_opt_def)
    from new_password_is_submitted [OF updated(6) t] sub have pm: "password m = pw" by simp
    from updated(7) t pm obtain h where h: "hashpw e pw salt = Inr h" "pwd = PStr h" by auto
    let ?u' = "u\<lparr>attrs := set_fields (dict_set ''password'' pwd (model_dump m)) (attrs u)\<rparr>"
    have "dict_get (attrs ?u') ''password'' = Some (PStr h)"
      using h(2) by (simp add: set_fields_password)
    moreover have "submitted_email items = Some em"
      using update_read_form_email [OF updated(2)] updated(3) unfolding i by simp
    ultimately show ?thesis
      using h(1) updated(4,5,8,10)
      by (intro exI [of _ h] exI [of _ em] exI [of _ u] exI [of _ ?u'] exI [of _ pre]
                exI [of _ post]) simp
  qed
qed

text \<open>
  Alice updates her name without a password: the stored hash stays. On the server that
  holds Bob's record before hers she updates with the password \<^verbatim>\<open>newpass1\<close>: her
  record, the second, stores its hash, and Bob's is untouched.
\<close>

theorem update_password_policy_witness:
  "form_body (multipart_request alice_update) = Inr alice_update
   \<and> map_of (form_dict alice_update) ''password'' = None
   \<and> update_profile ref_env alice_state (multipart_request alice_update) ''salt2''
       = (\<lparr>docs = [\<lparr>oid = ''id1'', attrs = alicia_attrs ''$2b$salt$secret1'' ''uploads/a.png''\<rparr>],
           files = []\<rparr>,
          StatusSuccess ''Profile updated successfully'')
   \<and> map (\<lambda>d. dict_get (attrs d) ''password'')
         [\<lparr>oid = ''id1'', attrs = alicia_attrs ''$2b$salt$secret1'' ''uploads/a.png''\<rparr>]
       = map (\<lambda>d. dict_get (attrs d) ''password'') (docs alice_state)
   \<and> map_of (form_dict (alice_update @ [(''password'', Text ''newpass1'')])) ''password''
       = Some (Text ''newpass1'')
   \<and> submitted_email (alice_update @ [(''password'', Text ''newpass1'')])
       = Some (PStr ''alice@example.com'')
   \<and> hashpw ref_env ''newpass1'' ''salt2'' = Inr ''$2b$salt2$newpass1''
   \<and> update_profile ref_env pair_state
         (multipart_request (alice_update @ [(''password'', Text ''newpass1'')])) ''salt2''
       = (\<lparr>docs = [legacy_doc,
                    \<lparr>oid = ''id1'', attrs = alicia_attrs ''$2b$salt2$newpass1'' ''uploads/a.png''\<rparr>],
           files = []\<rparr>,
          StatusSuccess ''Profile updated successfully'')
   \<and> (\<exists>h em u u' pre post.
         hashpw ref_env ''newpass1'' ''salt2'' = Inr h
       \<and> submitted_email (alice_update @ [(''password'', Text ''newpass1'')]) = Some em
       \<and> find_one (docs pair_state) em = Some u
       \<and> docs pair_state = pre @ u # post \<and> (\<forall>d \<in> set pre. \<not> matches em d)
       \<and> [legacy_doc,
            \<lparr>oid = ''id1'', attrs = alicia_attrs ''$2b$salt2$newpass1'' ''uploads/a.png''\<rparr>]
           = pre @ u' # post
       \<and> oid u' = oid u
       \<and> dict_get (attrs u') ''password'' = Some (PStr h))"
proof -
  let ?s1 = "\<lparr>docs = [\<lparr>oid = ''id1'', attrs = alicia_attrs ''$2b$salt$secret1'' ''uploads/a.png''\<rparr>],
              files = []\<rparr>"
  let ?s2 = "\<lparr>docs = [legacy_doc,
                      \<lparr>oid = ''id1'', attrs = alicia_attrs ''$2b$salt2$newpass1'' ''uploads/a.png''\<rparr>],
              files = []\<rparr>"
  let ?ok = "StatusSuccess ''Profile updated successfully''"
  let ?form = "alice_update @ [(''password'', Text ''newpass1'')]"
  have f1: "form_body (multipart_request alice_update) = Inr alice_update"
    by (simp add: multipart_request_def)
  have f2: "form_body (multipart_request ?form) = Inr ?form"
    by (simp add: multipart_request_def)
  have n: "map_of (form_dict alice_update) ''password'' = None"
    by code_simp
  have p: "map_of (form_dict ?form) ''password'' = Some (Text ''newpass1'')"
    by code_simp
  have em: "submitted_email ?form = Some (PStr ''alice@example.com'')"
    by code_simp
  have hp: "hashpw ref_env ''newpass1'' ''salt2'' = Inr ''$2b$salt2$newpass1''"
    by code_simp
  have u1: "update_profile ref_env alice_state (multipart_request alice_update) ''salt2''
              = (?s1, ?ok)"
    by code_simp
  have u2: "update_profile ref_env pair_state (multipart_request ?form) ''salt2'' = (?s2, ?ok)"
    by code_simp
  have a: "map (\<lambda>d. dict_get (attrs d) ''password'') (docs ?s1)
       = map (\<lambda>d. dict_get (attrs d) ''password'') (docs alice_state)"
    using update_password_policy [OF u1 f1] n by simp
  have b: "\<exists>h em u u' pre post.
         hashpw ref_env ''newpass1'' ''salt2'' = Inr h
       \<and> submitted_email ?form = Some em
       \<and> find_one (docs pair_state) em = Some u
       \<and> docs pair_state = pre @ u # post \<and> (\<forall>d \<in> set pre. \<not> matches em d)
       \<and> docs ?s2 = pre @ u' # post
       \<and> oid u' = oid u
       \<and> dict_get (attrs u') ''password'' = Some (PStr h)"
    using update_password_policy [OF u2 f2, THEN conjunct2, rule_format,
            of "''newpass1''" "''Profile updated successfully''"] p
    by simp
  from f1 n u1 a p em hp u2 b show ?thesis by simp
qed

text \<open>
  Claim C6 as stated fails: Alice submits the new password \<^verbatim>\<open>abc\<close>, non-empty but
  too short. The answer is "Validation failed", and her record keeps the old hash
  instead of a hash of \<^verbatim>\<open>abc\<close>.
\<close>

theorem update_short_password_counterexample:
  "find_one (docs alice_state) (PStr ''alice@example.com'') = Some alice_doc
   \<and> dict_get (attrs alice_doc) ''password'' = Some (PStr ''$2b$salt$secret1'')
   \<and> update_profile ref_env alice_state
         (multipart_request (alice_update @ [(''password'', Text ''abc'')])) ''salt2''
       = (alice_state,
          StatusFailure ''Validation failed'' (Some [VError ''password'' StringTooShort]))
   \<and> hashpw ref_env ''abc'' ''salt2'' \<noteq> Inr ''$2b$salt$secret1''"
  by code_simp

lemma kept_profilePic_is_stored:
  assumes "SignupModel e (keep_password (doc_dict u) (keep_profilePic (doc_dict u) data)) = Inr m"
      and "dict_get data ''profilePic'' = None"
  shows "dict_get (attrs u) ''profilePic'' = Some (PStr (profilePic m))"
  using SignupModel_profilePic [OF assms(1)] assms(2)
  by (simp add: keep_password_get keep_profilePic_get dict_get_doc_dict)

lemma new_profilePic_is_submitted:
  assumes "SignupModel e (keep_password (doc_dict u) (keep_profilePic (doc_dict u) data)) = Inr m"
      and "dict_get data ''profilePic'' = Some v"
  shows "v = PStr (profilePic m)"
  using SignupModel_profilePic [OF assms(1)] assms(2)
  by (simp add: keep_password_get keep_profilePic_get)

text \<open>
  Claim C5, as the code has it. For an update request whose form was read: when the form
  has no \<^verbatim>\<open>profilePic\<close> field, or has it as a file field with an empty file name, the
  \<^verbatim>\<open>profilePic\<close> stored in every record is after the update what it was before,
  whatever the answer. When \<^verbatim>\<open>profilePic\<close> is a file field with a non-empty file name
  and the update succeeds, the record found under the email now stores the path of the
  upload, the upload directory joined with the file name: the email is the one the form
  submits, the record is the first in the collection that matches it, and every other
  record is as it was. The file at that path holds the content of an upload of this
  request with that file name: the submitted content itself, unless another field of
  the form uploads a different file under the same name. A \<^verbatim>\<open>profilePic\<close> sent as text,
  and a file in a submission that fails validation, behave otherwise: see the
  counterexample below.
\<close>

theorem update_profilePic_policy:
  assumes "update_profile e s req salt = (s', r)" and "form_body req = Inr items"
  shows "((map_of (form_dict items) ''profilePic'' = None
            \<or> (\<exists>b. map_of (form_dict items) ''profilePic'' = Some (UploadFile [] b)))
           \<longrightarrow> map (\<lambda>d. dict_get (attrs d) ''profilePic'') (docs s')
                 = map (\<lambda>d. dict_get (attrs d) ''profilePic'') (docs s))
       \<and> (\<forall>n b msg. map_of (form_dict items) ''profilePic'' = Some (UploadFile n b) \<and> n \<noteq> []
                    \<and> r = StatusSuccess msg
           \<longrightarrow> (\<exists>em u u' pre post c.
                   submitted_email items = Some em
                 \<and> find_one (docs s) em = Some u
                 \<and> docs s = pre @ u # post \<and> (\<forall>d \<in> set pre. \<not> matches em d)
                 \<and> docs s' = pre @ u' # post \<and> oid u' = oid u
                 \<and> dict_get (attrs u') ''profilePic'' = Some (PStr (path_join UPLOAD_DIR n))
                 \<and> path_join UPLOAD_DIR n \<in> fst ` set (files s')
                 \<and> map_of (files s') (path_join UPLOAD_DIR n) = Some c
                 \<and> (\<exists>k. (k, UploadFile n c) \<in> set (form_dict items))
                 \<and> ((\<forall>k c'. (k, UploadFile n c') \<in> set (form_dict items) \<longrightarrow> c' = b)
                      \<longrightarrow> c = b)))"
proof (intro conjI impI allI)
  assume absent: "map_of (form_dict items) ''profilePic'' = None
            \<or> (\<exists>b. map_of (form_dict items) ''profilePic'' = Some (UploadFile [] b))"
  from assms(1) show "map (\<lambda>d. dict_get (attrs d) ''profilePic'') (docs s')
                 = map (\<lambda>d. dict_get (attrs d) ''profilePic'') (docs s)"
  proof (cases rule: update_profile_cases)
    case unchanged
    then show ?thesis by simp
  next
    case (updated items' data em u m pwd pre post)
    from updated(1) assms(2) have i: "items' = items" by simp
    from update_read_form_get [OF distinct_form_dict updated(2), of "''profilePic''"] absent
    have "dict_get data ''profilePic'' = None"
      unfolding i by (auto simp: dict_get_def)
    from kept_profilePic_is_stored [OF updated(6) this] updated(5,8)
    show ?thesis by (simp add: set_fields_profilePic)
  qed
next
  fix n b msg
  assume a: "map_of (form_dict items) ''profilePic'' = Some (UploadFile n b) \<and> n \<noteq> []
                    \<and> r = StatusSuccess msg"
  from assms(1) show "\<exists>em u u' pre post c.
                   submitted_email items = Some em
                 \<and> find_one (docs s) em = Some u
                 \<and> docs s = pre @ u # post \<and> (\<forall>d \<in> set pre. \<not> matches em d)
                 \<and> docs s' = pre @ u' # post \<and> oid u' = oid u
                 \<and> dict_get (attrs u') ''profilePic'' = Some (PStr (path_join UPLOAD_DIR n))
                 \<and> path_join UPLOAD_DIR n \<in> fst ` set (files s')
                 \<and> map_of (files s') (path_join UPLOAD_DIR n) = Some c
                 \<and> (\<exists>k. (k, UploadFile n c) \<in> set (form_dict items))
                 \<and> ((\<forall>k c'. (k, UploadFile n c') \<in> set (form_dict items) \<longrightarrow> c' = b)
                      \<longrightarrow> c = b)"
  proof (cases rule: update_profile_cases)
    case unchanged
    with a show ?thesis by simp
  next
    case (updated items' data em u m pwd pre post)
    from updated(1) assms(2) have i: "items' = items" by simp
    from update_read_form_get [OF distinct_form_dict updated(2), of "''profilePic''"] a
    have "dict_get data ''profilePic'' = Some (PStr (path_join UPLOAD_DIR n))"
      unfolding i by simp
    from new_profilePic_is_submitted [OF updated(6) this]
    have pm: "profilePic m = path_join UPLOAD_DIR n" by simp
    from a have "(''profilePic'', UploadFile n b) \<in> set (form_dict items)"
      by (simp add: map_of_SomeD)
    then have mem: "(''profilePic'', UploadFile n b) \<in> set (form_dict items)" .
    from update_read_form_written [OF updated(2) [unfolded i] mem] a
    have w: "path_join UPLOAD_DIR n \<in> fst ` set (files s')" by simp
    from update_read_form_stored_name [OF updated(2) [unfolded i] mem] a
    obtain k c where c: "(k, UploadFile n c) \<in> set (form_dict items)"
      "map_of (files s') (path_join UPLOAD_DIR n) = Some c"
      by blast
    have only: "(\<forall>k c'. (k, UploadFile n c') \<in> set (form_dict items) \<longrightarrow> c' = b) \<longrightarrow> c = b"
      using c(1) by blast
    let ?u' = "u\<lparr>attrs := set_fields (dict_set ''password'' pwd (model_dump m)) (attrs u)\<rparr>"
    have pic: "dict_get (attrs ?u') ''profilePic'' = Some (PStr (path_join UPLOAD_DIR n))"
      using pm by (simp add: set_fields_profilePic)
    have em: "submitted_email items = Some em"
      using update_read_form_email [OF updated(2)] updated(3) unfolding i by simp
    have "submitted_email items = Some em
                 \<and> find_one (docs s) em = Some u
                 \<and> docs s = pre @ u # post \<and> (\<forall>d \<in> set pre. \<not> matches em d)
                 \<and> docs s' = pre @ ?u' # post \<and> oid ?u' = oid u
                 \<and> dict_get (attrs ?u') ''profilePic'' = Some (PStr (path_join UPLOAD_DIR n))
                 \<and> path_join UPLOAD_DIR n \<in> fst ` set (files s')
                 \<and> map_of (files s') (path_join UPLOAD_DIR n) = Some c
                 \<and> (\<exists>k. (k, UploadFile n c) \<in> set (form_dict items))
                 \<and> ((\<forall>k c'. (k, UploadFile n c') \<in> set (form_dict items) \<longrightarrow> c' = b)
                      \<longrightarrow> c = b)"
      using em updated(4,5,8,10) pic w c only by simp blast
    then show ?thesis by blast
  qed
qed

text \<open>
  Alice updates without a picture, and with a picture field whose file name is empty:
  the stored reference stays. On the server that holds Bob's record before hers she
  uploads \<^verbatim>\<open>b.png\<close>: her record, the second, points to \<^verbatim>\<open>uploads/b.png\<close>, the file
  there holds what she sent, and Bob's record is untouched.
\<close>

theorem update_profilePic_policy_witness:
  "map_of (form_dict alice_update) ''profilePic'' = None
   \<and> update_profile ref_env alice_state (multipart_request alice_update) ''salt2''
       = (\<lparr>docs = [\<lparr>oid = ''id1'', attrs = alicia_attrs ''$2b$salt$secret1'' ''uploads/a.png''\<rparr>],
           files = []\<rparr>,
          StatusSuccess ''Profile updated successfully'')
   \<and> map_of (form_dict (alice_update @ [(''profilePic'', UploadFile [] [])])) ''profilePic''
       = Some (UploadFile [] [])
   \<and> update_profile ref_env alice_state
         (multipart_request (alice_update @ [(''profilePic'', UploadFile [] [])])) ''salt2''
       = (\<lparr>docs = [\<lparr>oid = ''id1'', attrs = alicia_attrs ''$2b$salt$secret1'' ''uploads/a.png''\<rparr>],
           files = []\<rparr>,
          StatusSuccess ''Profile updated successfully'')
   \<and> map (\<lambda>d. dict_get (attrs d) ''profilePic'')
         [\<lparr>oid = ''id1'', attrs = alicia_attrs ''$2b$salt$secret1'' ''uploads/a.png''\<rparr>]
       = map (\<lambda>d. dict_get (attrs d) ''profilePic'') (docs alice_state)
   \<and> map_of (form_dict (alice_update @ [(''profilePic'', UploadFile ''b.png'' ''PNG'')]))
         ''profilePic'' = Some (UploadFile ''b.png'' ''PNG'')
   \<and> submitted_email (alice_update @ [(''profilePic'', UploadFile ''b.png'' ''PNG'')])
       = Some (PStr ''alice@example.com'')
   \<and> update_profile ref_env pair_state
         (multipart_request (alice_update @ [(''profilePic'', UploadFile ''b.png'' ''PNG'')]))
         ''salt2''
       = (\<lparr>docs = [legacy_doc,
                    \<lparr>oid = ''id1'', attrs = alicia_attrs ''$2b$salt$secret1'' ''uploads/b.png''\<rparr>],
           files = [(''uploads/b.png'', ''PNG'')]\<rparr>,
          StatusSuccess ''Profile updated successfully'')
   \<and> path_join UPLOAD_DIR ''b.png'' = ''uploads/b.png''
   \<and> (\<exists>em u u' pre post c.
         submitted_email (alice_update @ [(''profilePic'', UploadFile ''b.png'' ''PNG'')]) = Some em
       \<and> find_one (docs pair_state) em = Some u
       \<and> docs pair_state = pre @ u # post \<and> (\<forall>d \<in> set pre. \<not> matches em d)
       \<and> [legacy_doc,
            \<lparr>oid = ''id1'', attrs = alicia_attrs ''$2b$salt$secret1'' ''uploads/b.png''\<rparr>]
           = pre @ u' # post
       \<and> oid u' = oid u
       \<and> dict_get (attrs u') ''profilePic'' = Some (PStr ''uploads/b.png'')
       \<and> map_of [(''uploads/b.png'', ''PNG'')] ''uploads/b.png'' = Some c
       \<and> c = ''PNG'')"
proof -
  let ?s1 = "\<lparr>docs = [\<lparr>oid = ''id1'', attrs = alicia_attrs ''$2b$salt$secret1'' ''uploads/a.png''\<rparr>],
              files = []\<rparr>"
  let ?s3 = "\<lparr>docs = [legacy_doc,
                      \<lparr>oid = ''id1'', attrs = alicia_attrs ''$2b$salt$secret1'' ''uploads/b.png''\<rparr>],
              files = [(''uploads/b.png'', ''PNG'')]\<rparr>"
  let ?ok = "StatusSuccess ''Profile updated successfully''"
  let ?empty = "alice_update @ [(''profilePic'', UploadFile [] [])]"
  let ?file = "alice_update @ [(''profilePic'', UploadFile ''b.png'' ''PNG'')]"
  have f: "form_body (multipart_request items) = Inr items" for items
    by (simp add: multipart_request_def)
  have n1: "map_of (form_dict alice_update) ''profilePic'' = None"
    by code_simp
  have n2: "map_of (form_dict ?empty) ''profilePic'' = Some (UploadFile [] [])"
    by code_simp
  have n3: "map_of (form_dict ?file) ''profilePic'' = Some (UploadFile ''b.png'' ''PNG'')"
    by code_simp
  have em: "submitted_email ?file = Some (PStr ''alice@example.com'')"
    by code_simp
  have u1: "update_profile ref_env alice_state (multipart_request alice_update) ''salt2''
              = (?s1, ?ok)"
    by code_simp
  have u2: "update_profile ref_env alice_state (multipart_request ?empty) ''salt2'' = (?s1, ?ok)"
    by code_simp
  have u3: "update_profile ref_env pair_state (multipart_request ?file) ''salt2'' = (?s3, ?ok)"
    by code_simp
  have pj: "path_join UPLOAD_DIR ''b.png'' = ''uploads/b.png''"
    by code_simp
  have only: "\<forall>k c'. (k, UploadFile ''b.png'' c') \<in> set (form_dict ?file) \<longrightarrow> c' = ''PNG''"
  proof -
    have "form_dict ?file = ?file" by code_simp
    then show ?thesis by (simp add: alice_update_def)
  qed
  have a: "map (\<lambda>d. dict_get (attrs d) ''profilePic'') (docs ?s1)
       = map (\<lambda>d. dict_get (attrs d) ''profilePic'') (docs alice_state)"
    using update_profilePic_policy [OF u2 f] n2 by simp
  have sent: "map_of (form_dict ?file) ''profilePic'' = Some (UploadFile ''b.png'' ''PNG'')
                \<and> ''b.png'' \<noteq> [] \<and> ?ok = StatusSuccess ''Profile updated successfully''"
    using n3 by simp
  from update_profilePic_policy [OF u3 f, THEN conjunct2, rule_format, OF sent]
  obtain em' u u' pre post c where b:
      "submitted_email ?file = Some em'"
      "find_one (docs pair_state) em' = Some u"
      "docs pair_state = pre @ u # post" "\<forall>d \<in> set pre. \<not> matches em' d"
      "docs ?s3 = pre @ u' # post" "oid u' = oid u"
      "dict_get (attrs u') ''profilePic'' = Some (PStr (path_join UPLOAD_DIR ''b.png''))"
      "map_of (files ?s3) (path_join UPLOAD_DIR ''b.png'') = Some c"
      "(\<forall>k c'. (k, UploadFile ''b.png'' c') \<in> set (form_dict ?file) \<longrightarrow> c' = ''PNG'')
         \<longrightarrow> c = ''PNG''"
    by blast
  from b(9) only have c: "c = ''PNG''" by blast
  from b(7) pj have pic: "dict_get (attrs u') ''profilePic'' = Some (PStr ''uploads/b.png'')"
    by simp
  from b(8) pj have held: "map_of (files ?s3) ''uploads/b.png'' = Some c"
    by simp
  from b(1-6) pic held c have "\<exists>em u u' pre post c.
         submitted_email ?file = Some em
       \<and> find_one (docs pair_state) em = Some u
       \<and> docs pair_state = pre @ u # post \<and> (\<forall>d \<in> set pre. \<not> matches em d)
       \<and> docs ?s3 = pre @ u' # post
       \<and> oid u' = oid u
       \<and> dict_get (attrs u') ''profilePic'' = Some (PStr ''uploads/b.png'')
       \<and> map_of (files ?s3) ''uploads/b.png'' = Some c
       \<and> c = ''PNG''"
    by blast
  with n1 u1 n2 u2 a n3 em u3 pj show ?thesis by simp
qed

text \<open>
  Claim C5 as stated fails twice. Alice sends no file but a text field \<^verbatim>\<open>profilePic\<close>:
  the stored reference is replaced by that text. And she uploads \<^verbatim>\<open>b.png\<close> together
  with the age 0: the file is written, the answer is "Validation failed", and her
  record still points to the old picture.
\<close>

theorem update_profilePic_counterexample:
  "dict_get (attrs alice_doc) ''profilePic'' = Some (PStr ''uploads/a.png'')
   \<and> update_profile ref_env alice_state
         (multipart_request (alice_update @ [(''profilePic'', Text ''elsewhere.png'')])) ''salt2''
       = (\<lparr>docs = [\<lparr>oid = ''id1'', attrs = alicia_attrs ''$2b$salt$secret1'' ''elsewhere.png''\<rparr>],
           files = []\<rparr>,
          StatusSuccess ''Profile updated successfully'')
   \<and> update_profile ref_env alice_state
         (multipart_request
            [(''email'', Text ''alice@example.com''), (''age'', Text ''0''),
             (''firstName'', Text ''Alicia''), (''lastName'', Text ''Liddell''),
             (''mobileNo'', Text ''0123456789''),
             (''profilePic'', UploadFile ''b.png'' ''PNG'')]) ''salt2''
       = (\<lparr>docs = [alice_doc], files = [(''uploads/b.png'', ''PNG'')]\<rparr>,
          StatusFailure ''Validation failed'' (Some [VError ''age'' GreaterThanEqual]))"
  by code_simp

section \<open>Stored passwords are hashes\<close>

lemma signup_cases:
  assumes "signup e s req salt nid = (s', r)"
  obtains (unchanged) "docs s' = docs s" "\<forall>i. r \<noteq> SignupOk i"
  | (inserted) s1 data m h where
      "signup_data e s req = Some (s1, Inr data)"
      "SignupModel e data = Inr m"
      "hashpw e (password m) salt = Inr h"
      "docs s' = docs s @ [\<lparr>oid = nid, attrs = dict_set ''password'' (PStr h) (model_dump m)\<rparr>]"
      "r = SignupOk nid"
proof (cases "signup_data e s req")
  case None
  with assms have "docs s' = docs s" "\<forall>i. r \<noteq> SignupOk i"
    by (auto simp: signup_def)
  then show ?thesis by (rule unchanged)
next
  case (Some a)
  obtain s1 res where a: "a = (s1, res)" by (cases a)
  from Some a have d: "docs s1 = docs s" by (simp add: signup_data_docs)
  show ?thesis
  proof (cases res)
    case (Inl f)
    with assms Some a d have "docs s' = docs s" "\<forall>i. r \<noteq> SignupOk i"
      by (auto simp: signup_def)
    then show ?thesis by (rule unchanged)
  next
    case (Inr data)
    with assms Some a have v: "signup_validated e s1 data salt nid = (s', r)"
      by (simp add: signup_def)
    show ?thesis
    proof (cases "\<exists>m h. SignupModel e data = Inr m \<and> hashpw e (password m) salt = Inr h
                      \<and> nid \<notin> set (map oid (docs s1))")
      case True
      then obtain m h where mh: "SignupModel e data = Inr m" "hashpw e (password m) salt = Inr h"
        "nid \<notin> set (map oid (docs s1))" by blast
      with v d have "docs s' = docs s @ [\<lparr>oid = nid, attrs = dict_set ''password'' (PStr h) (model_dump m)\<rparr>]"
        "r = SignupOk nid"
        by (auto simp: signup_validated_def insert_one_def)
      with Some a Inr mh show ?thesis by (intro inserted [of s1 data m h]) auto
    next
      case False
      with v d have "docs s' = docs s" "\<forall>i. r \<noteq> SignupOk i"
        by (auto simp: signup_validated_def insert_one_def split: sum.splits if_splits)
      then show ?thesis by (rule unchanged)
    qed
  qed
qed

lemma hashed_store_docs: "docs s' = docs s \<Longrightarrow> hashed_store e s' = hashed_store e s"
  by (simp add: hashed_store_def)

lemma hashed_store_signup:
  assumes "hashed_store e s"
  shows "hashed_store e (fst (signup e s req salt nid))"
proof -
  obtain s' r where sr: "signup e s req salt nid = (s', r)"
    by (cases "signup e s req salt nid")
  from sr have "hashed_store e s'"
  proof (cases rule: signup_cases)
    case unchanged
    from hashed_store_docs [OF unchanged(1), of e] assms show ?thesis by simp
  next
    case (inserted s1 data m h)
    have "is_hash e (PStr h)"
      unfolding is_hash_def using inserted(3) by blast
    with assms inserted(4) show ?thesis
      by (auto simp: hashed_store_def dict_get_set split: if_splits)
  qed
  with sr show ?thesis by simp
qed

lemma hashed_store_update:
  assumes "hashed_store e s"
  shows "hashed_store e (fst (update_profile e s req salt))"
proof -
  obtain s' r where sr: "update_profile e s req salt = (s', r)"
    by (cases "update_profile e s req salt")
  from sr have "hashed_store e s'"
  proof (cases rule: update_profile_cases)
    case unchanged
    from hashed_store_docs [OF unchanged(1), of e] assms show ?thesis by simp
  next
    case (updated items data em u m pwd pre post)
    have "is_hash e pwd"
    proof (cases "truthy_opt (dict_get data ''password'')")
      case True
      with updated(7) show ?thesis unfolding is_hash_def by blast
    next
      case False
      with updated(7) have "pwd = dict_get_default (doc_dict u) ''password'' (PStr [])" by auto
      with kept_password_is_stored [OF updated(6) False]
      have "dict_get (attrs u) ''password'' = Some pwd" by simp
      moreover have "u \<in> set (docs s)" using updated(5) by simp
      ultimately show ?thesis using assms by (auto simp: hashed_store_def)
    qed
    let ?u' = "u\<lparr>attrs := set_fields (dict_set ''password'' pwd (model_dump m)) (attrs u)\<rparr>"
    have "is_hash e v" if d: "d \<in> set (docs s')" and v: "dict_get (attrs d) ''password'' = Some v"
      for d v
    proof (cases "d = ?u'")
      case True
      with v have "v = pwd" by (simp add: set_fields_password)
      with \<open>is_hash e pwd\<close> show ?thesis by simp
    next
      case False
      with d updated(5,8) have "d \<in> set (docs s)" by auto
      with assms v show ?thesis unfolding hashed_store_def by blast
    qed
    then show ?thesis unfolding hashed_store_def by blast
  qed
  with sr show ?thesis by simp
qed

lemma hashed_store_delete:
  assumes "hashed_store e s"
  shows "hashed_store e (fst (delete_profile s em))"
proof -
  have "set (docs (fst (delete_profile s em))) \<subseteq> set (docs s)"
  proof (cases "find_one (docs s) (PStr em)")
    case None
    then show ?thesis by (simp add: delete_profile_def)
  next
    case (Some u)
    then show ?thesis
      by (auto simp: delete_profile_def delete_one_Some dest: set_remove1_subset [THEN subsetD])
  qed
  with assms show ?thesis unfolding hashed_store_def by blast
qed

lemma hashed_store_serve: "hashed_store e s \<Longrightarrow> hashed_store e (serve e s c)"
  by (cases c) (simp_all add: hashed_store_signup hashed_store_update hashed_store_delete)

lemma hashed_store_run: "hashed_store e s \<Longrightarrow> hashed_store e (run e s calls)"
  unfolding run_def by (induction calls arbitrary: s) (simp_all add: hashed_store_serve)

text \<open>
  Claim C2. Let hashing keep its contract: a hash it returns differs from the plaintext
  and the plaintext verifies against it. Then the write paths keep the store hashed:
  if every stored password field holds a hash string before a signup or a profile
  update, so it does after, and so it does after any list of signups, updates and
  deletes; a server that starts with an empty collection is hashed at every moment.
  A successful signup stores, in the record it appends, the hash of the submitted
  password: not the plaintext, and the plaintext verifies against it. A successful
  update that submits a password field leaves in the updated record a hash string that
  is not the submitted text.
\<close>

theorem stored_password_is_hash:
  assumes contract: "\<forall>pw salt h. hashpw e pw salt = Inr h \<longrightarrow> h \<noteq> pw \<and> checkpw e pw h = Inr True"
      and inv: "hashed_store e s"
  shows "hashed_store e (fst (signup e s req salt nid))
       \<and> hashed_store e (fst (update_profile e s req salt))
       \<and> hashed_store e (run e s calls)
       \<and> (\<forall>s' i. signup e s req salt nid = (s', SignupOk i)
            \<longrightarrow> (\<exists>s1 data pw h d.
                    signup_data e s req = Some (s1, Inr data)
                  \<and> dict_get data ''password'' = Some (PStr pw)
                  \<and> docs s' = docs s @ [d]
                  \<and> hashpw e pw salt = Inr h
                  \<and> dict_get (attrs d) ''password'' = Some (PStr h)
                  \<and> h \<noteq> pw \<and> checkpw e pw h = Inr True))
       \<and> (\<forall>s' msg items pw.
              update_profile e s req salt = (s', StatusSuccess msg)
            \<and> form_body req = Inr items
            \<and> map_of (form_dict items) ''password'' = Some (Text pw)
            \<longrightarrow> (\<exists>u u' pre post h.
                    docs s = pre @ u # post \<and> docs s' = pre @ u' # post
                  \<and> dict_get (attrs u') ''password'' = Some (PStr h)
                  \<and> is_hash e (PStr h) \<and> h \<noteq> pw))"
proof (intro conjI allI impI)
  show "hashed_store e (fst (signup e s req salt nid))"
    using inv by (rule hashed_store_signup)
  show "hashed_store e (fst (update_profile e s req salt))"
    using inv by (rule hashed_store_update)
  show "hashed_store e (run e s calls)"
    using inv by (rule hashed_store_run)
next
  fix s' i
  assume "signup e s req salt nid = (s', SignupOk i)"
  then show "\<exists>s1 data pw h d.
                    signup_data e s req = Some (s1, Inr data)
                  \<and> dict_get data ''password'' = Some (PStr pw)
                  \<and> docs s' = docs s @ [d]
                  \<and> hashpw e pw salt = Inr h
                  \<and> dict_get (attrs d) ''password'' = Some (PStr h)
                  \<and> h \<noteq> pw \<and> checkpw e pw h = Inr True"
  proof (cases rule: signup_cases)
    case unchanged
    then show ?thesis by simp
  next
    case (inserted s1 data m h)
    let ?d = "\<lparr>oid = nid, attrs = dict_set ''password'' (PStr h) (model_dump m)\<rparr>"
    from contract inserted(3) have c: "h \<noteq> password m" "checkpw e (password m) h = Inr True"
      by auto
    have "dict_get (attrs ?d) ''password'' = Some (PStr h)"
      by (simp add: dict_get_set)
    with inserted c SignupModel_password [OF inserted(2)] show ?thesis
      by (intro exI [of _ s1] exI [of _ data] exI [of _ "password m"] exI [of _ h]
                exI [of _ ?d]) simp
  qed
next
  fix s' msg items pw
  assume a: "update_profile e s req salt = (s', StatusSuccess msg)
            \<and> form_body req = Inr items
            \<and> map_of (form_dict items) ''password'' = Some (Text pw)"
  then have up: "update_profile e s req salt = (s', StatusSuccess msg)" by simp
  from hashed_store_update [OF inv, of req salt] up have inv': "hashed_store e s'" by simp
  from up show "\<exists>u u' pre post h.
                    docs s = pre @ u # post \<and> docs s' = pre @ u' # post
                  \<and> dict_get (attrs u') ''password'' = Some (PStr h)
                  \<and> is_hash e (PStr h) \<and> h \<noteq> pw"
  proof (cases rule: update_profile_cases)
    case unchanged
    then show ?thesis by simp
  next
    case (updated items' data em u m pwd pre post)
    from updated(1) a have i: "items' = items" by simp
    from update_read_form_get [OF distinct_form_dict updated(2), of "''password''"] a
    have sub: "dict_get data ''password'' = Some (PStr pw)"
      unfolding i by (simp add: dict_get_def)
    let ?u' = "u\<lparr>attrs := set_fields (dict_set ''password'' pwd (model_dump m)) (attrs u)\<rparr>"
    have st: "dict_get (attrs ?u') ''password'' = Some pwd"
      by (simp add: set_fields_password)
    have "?u' \<in> set (docs s')" using updated(8) by simp
    with inv' st have ih: "is_hash e pwd" by (auto simp: hashed_store_def)
    then obtain h where h: "pwd = PStr h" by (auto simp: is_hash_def)
    have "h \<noteq> pw"
    proof (cases "truthy_opt (dict_get data ''password'')")
      case True
      from new_password_is_submitted [OF updated(6) True] sub have "password m = pw" by simp
      with updated(7) True h contract show ?thesis by auto
    next
      case False
      with sub have "pw = []" by (simp add: truthy_opt_def)
      moreover from kept_password_is_stored [OF updated(6) False] updated(7) False h
      have "6 \<le> length h" by auto
      ultimately show ?thesis by auto
    qed
    with st ih h updated(5,8) show ?thesis
      by (intro exI [of _ u] exI [of _ ?u'] exI [of _ pre] exI [of _ post] exI [of _ h]) simp
  qed
qed

lemma ref_env_contract:
  "\<forall>pw salt h. hashpw ref_env pw salt = Inr h
     \<longrightarrow> h \<noteq> pw \<and> checkpw ref_env pw h = Inr True"
proof (intro allI impI)
  fix pw salt h
  assume "hashpw ref_env pw salt = Inr h"
  then have h: "h = ''$2b$'' @ salt @ ''$'' @ pw"
    by (simp add: ref_env_def ref_hashpw_def)
  have "length h \<noteq> length pw" unfolding h by simp
  then have "h \<noteq> pw" by auto
  moreover have "suffix (''$'' @ pw) h"
    unfolding h by (intro suffixI [of _ "''$2b$'' @ salt"]) simp
  moreover have "prefix ''$2b$'' h"
    unfolding h by simp
  ultimately show "h \<noteq> pw \<and> checkpw ref_env pw h = Inr True"
    by (simp add: ref_env_def ref_checkpw_def)
qed

text \<open>
  Alice signs up on the empty server with the password \<^verbatim>\<open>secret1\<close>, and later changes
  it to \<^verbatim>\<open>newpass1\<close>: each time her record holds a hash, not what she typed.
\<close>

theorem stored_password_is_hash_witness:
  "hashed_store ref_env empty_state
   \<and> hashed_store ref_env alice_state
   \<and> hashed_store ref_env (fst (signup ref_env empty_state (json_request alice_json) ''salt'' ''id1''))
   \<and> hashed_store ref_env
       (fst (update_profile ref_env alice_state
               (multipart_request (alice_update @ [(''password'', Text ''newpass1'')])) ''salt2''))
   \<and> hashed_store ref_env
       (run ref_env empty_state
          [Signup (json_request alice_json) ''salt'' ''id1'',
           UpdateProfile
             (multipart_request (alice_update @ [(''password'', Text ''newpass1'')])) ''salt2'',
           Signup (json_request alice_json) ''salt3'' ''id2'',
           DeleteProfile ''alice@example.com''])
   \<and> signup ref_env empty_state (json_request alice_json) ''salt'' ''id1''
       = (alice_state, SignupOk ''id1'')
   \<and> (\<exists>s1 data pw h d.
         signup_data ref_env empty_state (json_request alice_json) = Some (s1, Inr data)
       \<and> dict_get data ''password'' = Some (PStr pw)
       \<and> docs alice_state = docs empty_state @ [d]
       \<and> hashpw ref_env pw ''salt'' = Inr h
       \<and> dict_get (attrs d) ''password'' = Some (PStr h)
       \<and> h \<noteq> pw \<and> checkpw ref_env pw h = Inr True)
   \<and> dict_get alice_json ''password'' = Some (PStr ''secret1'')
   \<and> dict_get (attrs alice_doc) ''password'' = Some (PStr ''$2b$salt$secret1'')
   \<and> checkpw ref_env ''secret1'' ''$2b$salt$secret1'' = Inr True"
proof -
  have e: "hashed_store ref_env empty_state"
    by (simp add: hashed_store_def empty_state_def)
  have "hashpw ref_env ''secret1'' ''salt'' = Inr ''$2b$salt$secret1''"
    by code_simp
  then have "is_hash ref_env (PStr ''$2b$salt$secret1'')"
    unfolding is_hash_def by blast
  moreover have "dict_get (attrs alice_doc) ''password'' = Some (PStr ''$2b$salt$secret1'')"
    by code_simp
  ultimately have a: "hashed_store ref_env alice_state"
    by (simp add: hashed_store_def alice_state_def)
  have su: "signup ref_env empty_state (json_request alice_json) ''salt'' ''id1''
       = (alice_state, SignupOk ''id1'')"
    by code_simp
  note T1 = stored_password_is_hash [OF ref_env_contract e,
              where req = "json_request alice_json" and salt = "''salt''" and nid = "''id1''"]
  note T2 = stored_password_is_hash [OF ref_env_contract a,
              where req = "multipart_request (alice_update @ [(''password'', Text ''newpass1'')])"
                and salt = "''salt2''"]
  have c1: "hashed_store ref_env
             (fst (signup ref_env empty_state (json_request alice_json) ''salt'' ''id1''))"
    using T1 by blast
  have c2: "hashed_store ref_env
       (fst (update_profile ref_env alice_state
               (multipart_request (alice_update @ [(''password'', Text ''newpass1'')])) ''salt2''))"
    using T2 by blast
  have c5: "hashed_store ref_env
       (run ref_env empty_state
          [Signup (json_request alice_json) ''salt'' ''id1'',
           UpdateProfile
             (multipart_request (alice_update @ [(''password'', Text ''newpass1'')])) ''salt2'',
           Signup (json_request alice_json) ''salt3'' ''id2'',
           DeleteProfile ''alice@example.com''])"
    using stored_password_is_hash [OF ref_env_contract e] by blast
  have c3: "\<exists>s1 data pw h d.
         signup_data ref_env empty_state (json_request alice_json) = Some (s1, Inr data)
       \<and> dict_get data ''password'' = Some (PStr pw)
       \<and> docs alice_state = docs empty_state @ [d]
       \<and> hashpw ref_env pw ''salt'' = Inr h
       \<and> dict_get (attrs d) ''password'' = Some (PStr h)
       \<and> h \<noteq> pw \<and> checkpw ref_env pw h = Inr True"
    using T1 [THEN conjunct2, THEN conjunct2, THEN conjunct2, THEN conjunct1, rule_format, OF su] .
  have c4: "dict_get alice_json ''password'' = Some (PStr ''secret1'')"
       "dict_get (attrs alice_doc) ''password'' = Some (PStr ''$2b$salt$secret1'')"
       "checkpw ref_env ''secret1'' ''$2b$salt$secret1'' = Inr True"
    by code_simp+
  from e a c1 c2 c5 su c3 c4 show ?thesis by blast
qed

end
